theory Spec2Isabelle
  imports Main
begin

section \<open>JavaScript strings\<close>

text \<open>
  A JavaScript string is a sequence of UTF-16 code units. The parser in
  \<^verbatim>\<open>src/lib/pdf-parser.ts\<close> works on Korean text, so a string is modelled as the list of
  its code units (natural numbers); \<open>ascii\<close> embeds an ASCII literal, and the Hangul
  literals of the source are named constants \<open>k_\<dots>\<close> (romanised) further down.
\<close>

type_synonym jsstring = "nat list"

definition ascii :: "string \<Rightarrow> jsstring" where
  "ascii s = map of_char s"

definition u_newline :: nat where "u_newline = 10"
definition u_comma :: nat where "u_comma = 44"
definition u_hyphen :: nat where "u_hyphen = 45"
definition u_period :: nat where "u_period = 46"

text \<open>\<^verbatim>\<open>\d\<close> is the ASCII digits only (no \<^verbatim>\<open>u\<close> or \<^verbatim>\<open>i\<close> flag is used anywhere).\<close>

definition is_digit :: "nat \<Rightarrow> bool" where
  "is_digit x = (48 \<le> x \<and> x \<le> 57)"

text \<open>
  \<^verbatim>\<open>\s\<close> and \<^verbatim>\<open>String.prototype.trim\<close> use the same set: ECMAScript WhiteSpace and
  LineTerminator code points.
\<close>

definition is_space :: "nat \<Rightarrow> bool" where
  "is_space x =
     (x = 9 \<or> x = 10 \<or> x = 11 \<or> x = 12 \<or> x = 13 \<or> x = 32 \<or> x = 0xA0 \<or> x = 0x1680
      \<or> (0x2000 \<le> x \<and> x \<le> 0x200A) \<or> x = 0x2028 \<or> x = 0x2029 \<or> x = 0x202F
      \<or> x = 0x205F \<or> x = 0x3000 \<or> x = 0xFEFF)"

text \<open>\<^verbatim>\<open>s.trim()\<close>\<close>

definition trim :: "jsstring \<Rightarrow> jsstring" where
  "trim s = rev (dropWhile is_space (rev (dropWhile is_space s)))"

text \<open>\<^verbatim>\<open>s.startsWith(p)\<close> and \<^verbatim>\<open>s.includes(p)\<close>\<close>

definition starts_with :: "jsstring \<Rightarrow> jsstring \<Rightarrow> bool" where
  "starts_with s p = (take (length p) s = p)"

fun js_includes :: "jsstring \<Rightarrow> jsstring \<Rightarrow> bool" where
  "js_includes [] p = (p = [])"
| "js_includes (x # xs) p = (starts_with (x # xs) p \<or> js_includes xs p)"

text \<open>\<^verbatim>\<open>s.split('\n')\<close>: always at least one piece.\<close>

fun split_lines :: "jsstring \<Rightarrow> jsstring list" where
  "split_lines [] = [[]]"
| "split_lines (x # xs) =
     (if x = u_newline then [] # split_lines xs
      else (case split_lines xs of [] \<Rightarrow> [[x]] | l # ls \<Rightarrow> (x # l) # ls))"

text \<open>\<^verbatim>\<open>s.replace(/,/g, '')\<close>\<close>

definition remove_commas :: "jsstring \<Rightarrow> jsstring" where
  "remove_commas s = filter (\<lambda>x. x \<noteq> u_comma) s"

section \<open>Numbers\<close>

text \<open>
  \<^verbatim>\<open>parseInt(s, 10)\<close> skips leading white space, reads an optional sign and the longest
  prefix of decimal digits, and returns \<^verbatim>\<open>NaN\<close> when there is no digit. The mathematical
  value is then rounded to the nearest IEEE double, ties to even (integers below \<open>2^53\<close> are
  exact; the largest finite double is \<open>2^1024 - 2^971\<close>).
\<close>

datatype jsnumber = NaN | Infinity bool | Num int

fun digits_value :: "jsstring \<Rightarrow> nat \<Rightarrow> nat" where
  "digits_value [] acc = acc"
| "digits_value (d # ds) acc = digits_value ds (10 * acc + (d - 48))"

fun bit_length :: "nat \<Rightarrow> nat" where
  "bit_length n = (if n = 0 then 0 else Suc (bit_length (n div 2)))"

declare bit_length.simps [simp del]

definition round_double :: "nat \<Rightarrow> nat option" where
  "round_double n =
     (if n < 2 ^ 53 then Some n
      else let e = bit_length n - 53;
               q = n div 2 ^ e;
               r = n mod 2 ^ e;
               half = 2 ^ (e - 1);
               q' = (if half < r \<or> (r = half \<and> odd q) then q + 1 else q);
               v = q' * 2 ^ e
           in if v < 2 ^ 1024 then Some v else None)"

definition parseInt :: "jsstring \<Rightarrow> jsnumber" where
  "parseInt s =
     (let s1 = dropWhile is_space s;
          neg = (case s1 of [] \<Rightarrow> False | x # _ \<Rightarrow> x = u_hyphen);
          s2 = (case s1 of [] \<Rightarrow> [] | x # xs \<Rightarrow> if x = u_hyphen \<or> x = 43 then xs else s1);
          ds = takeWhile is_digit s2
      in if ds = [] then NaN
         else (case round_double (digits_value ds 0) of
                 None \<Rightarrow> Infinity neg
               | Some v \<Rightarrow> Num (if neg then - int v else int v)))"

text \<open>
  \<^verbatim>\<open>parseFloat\<close> returns a floating-point number; its result is kept symbolically as the
  string it was applied to.
\<close>

datatype jsfloat = ParseFloat jsstring

section \<open>Regular expressions\<close>

text \<open>
  The regular expressions of the source are terms of \<open>regex\<close>, run by a backtracking
  matcher that follows the ECMAScript semantics: \<open>run r s c\<close> is the list, in the
  priority order of backtracking, of all ways \<open>r\<close> matches a prefix of \<open>s\<close>; each is the
  rest of the input with the captures. The first element is what the engine returns.
  No regular expression of the source uses \<^verbatim>\<open>^\<close>, \<^verbatim>\<open>\b\<close>, a back-reference or a look-behind,
  so a match depends on the rest of the input only. No capture group stands under a
  quantifier that can iterate twice, so resetting captures on iteration is not observable
  and is not modelled.
\<close>

named_theorems rx \<open>the definitions of the regular expressions\<close>

datatype cclass = CChar nat | CDigit | CSpace | CNonSpace

fun in_class :: "cclass \<Rightarrow> nat \<Rightarrow> bool" where
  "in_class (CChar y) x = (x = y)"
| "in_class CDigit x = is_digit x"
| "in_class CSpace x = is_space x"
| "in_class CNonSpace x = (\<not> is_space x)"

fun in_classes :: "cclass list \<Rightarrow> nat \<Rightarrow> bool" where
  "in_classes [] x = False"
| "in_classes (k # ks) x = (in_class k x \<or> in_classes ks x)"

datatype regex =
    Lit jsstring
  | OneOf "cclass list"
  | NoneOf "cclass list"
  | Seq regex regex
  | Alt regex regex
  | Star regex
  | LazyStar regex
  | Group nat regex
  | Ahead regex
  | End

type_synonym caps = "nat \<Rightarrow> jsstring option"

text \<open>
  \<open>Star\<close> is the greedy \<^verbatim>\<open>*\<close> and \<open>LazyStar\<close> is \<^verbatim>\<open>*?\<close>; an iteration that consumes nothing
  is rejected, as in ECMAScript's RepeatMatcher. \<open>Ahead\<close> is \<^verbatim>\<open>(?=\<dots>)\<close>: it consumes
  nothing, keeps the captures of its first match and is not backtracked into. \<open>End\<close> is
  \<^verbatim>\<open>$\<close> without the \<^verbatim>\<open>m\<close> flag.
\<close>

function run :: "regex \<Rightarrow> jsstring \<Rightarrow> caps \<Rightarrow> (jsstring \<times> caps) list" where
  "run (Lit w) s c = (if take (length w) s = w then [(drop (length w) s, c)] else [])"
| "run (OneOf cs) s c =
     (case s of [] \<Rightarrow> [] | x # xs \<Rightarrow> if in_classes cs x then [(xs, c)] else [])"
| "run (NoneOf cs) s c =
     (case s of [] \<Rightarrow> [] | x # xs \<Rightarrow> if in_classes cs x then [] else [(xs, c)])"
| "run (Seq a b) s c = concat (map (\<lambda>(s', c'). run b s' c') (run a s c))"
| "run (Alt a b) s c = run a s c @ run b s c"
| "run (Star a) s c =
     concat (map (\<lambda>(s', c'). if length s' < length s then run (Star a) s' c' else [])
                 (run a s c)) @ [(s, c)]"
| "run (LazyStar a) s c =
     (s, c) # concat (map (\<lambda>(s', c'). if length s' < length s then run (LazyStar a) s' c' else [])
                          (run a s c))"
| "run (Group k a) s c =
     map (\<lambda>(s', c'). (s', c'(k := Some (take (length s - length s') s)))) (run a s c)"
| "run (Ahead a) s c = (case run a s c of [] \<Rightarrow> [] | (s', c') # _ \<Rightarrow> [(s, c')])"
| "run End s c = (if s = [] then [(s, c)] else [])"
  by pat_completeness auto
termination
  by (relation "measures [\<lambda>(r, s, c). size r, \<lambda>(r, s, c). length s]") auto

text \<open>The derived forms: sequences, alternatives, \<^verbatim>\<open>+\<close>, \<^verbatim>\<open>+?\<close>, \<^verbatim>\<open>?\<close>, \<^verbatim>\<open>{n}\<close>, \<^verbatim>\<open>{n,m}\<close>.\<close>

fun seqs :: "regex list \<Rightarrow> regex" where
  "seqs [] = Lit []"
| "seqs [r] = r"
| "seqs (r # rs) = Seq r (seqs rs)"

fun alts :: "regex list \<Rightarrow> regex" where
  "alts [] = OneOf []"
| "alts [r] = r"
| "alts (r # rs) = Alt r (alts rs)"

definition plus :: "regex \<Rightarrow> regex" where
  "plus r = Seq r (Star r)"

definition lazy_plus :: "regex \<Rightarrow> regex" where
  "lazy_plus r = Seq r (LazyStar r)"

definition opt :: "regex \<Rightarrow> regex" where
  "opt r = Alt r (Lit [])"

fun rep :: "nat \<Rightarrow> regex \<Rightarrow> regex" where
  "rep 0 r = Lit []"
| "rep (Suc 0) r = r"
| "rep (Suc n) r = Seq r (rep n r)"

fun rep_range :: "nat \<Rightarrow> nat \<Rightarrow> regex \<Rightarrow> regex" where
  "rep_range 0 0 r = Lit []"
| "rep_range 0 (Suc m) r = opt (Seq r (rep_range 0 m r))"
| "rep_range (Suc n) m r = Seq r (rep_range n (m - 1) r)"

text \<open>
  \<^verbatim>\<open>.\<close> without and with the \<^verbatim>\<open>s\<close> flag, \<^verbatim>\<open>[\s\S]\<close>, \<^verbatim>\<open>\d\<close>, \<^verbatim>\<open>\d+\<close>, \<^verbatim>\<open>\s*\<close>, \<^verbatim>\<open>\s+\<close>.
\<close>

definition dot :: regex where
  [rx]: "dot = NoneOf [CChar 10, CChar 13, CChar 0x2028, CChar 0x2029]"

definition dot_all :: regex where
  [rx]: "dot_all = NoneOf []"

definition any_char :: regex where
  [rx]: "any_char = OneOf [CSpace, CNonSpace]"

definition digit :: regex where
  [rx]: "digit = OneOf [CDigit]"

definition digits :: regex where
  [rx]: "digits = plus (OneOf [CDigit])"

definition ws :: regex where
  [rx]: "ws = Star (OneOf [CSpace])"

definition ws1 :: regex where
  [rx]: "ws1 = plus (OneOf [CSpace])"

text \<open>
  \<^verbatim>\<open>re.exec(s)\<close> from the start of \<open>s\<close>: the leftmost start at which \<open>r\<close> matches, giving
  the matched text, the captures and the input after the match.
\<close>

definition no_caps :: caps where
  "no_caps = (\<lambda>_. None)"

fun search :: "regex \<Rightarrow> jsstring \<Rightarrow> (jsstring \<times> caps \<times> jsstring) option" where
  "search r [] =
     (case run r [] no_caps of [] \<Rightarrow> None | (s', c') # _ \<Rightarrow> Some ([], c', s'))"
| "search r (x # xs) =
     (case run r (x # xs) no_caps of
        [] \<Rightarrow> search r xs
      | (s', c') # _ \<Rightarrow> Some (take (length (x # xs) - length s') (x # xs), c', s'))"

text \<open>
  \<^verbatim>\<open>s.match(re)\<close> for a regular expression without the \<^verbatim>\<open>g\<close> flag: \<^verbatim>\<open>null\<close> or the match
  array, index 0 the matched text and index \<open>k\<close> capture \<open>k\<close> (\<^verbatim>\<open>undefined\<close> is \<open>None\<close>).
\<close>

type_synonym match_array = "nat \<Rightarrow> jsstring option"

definition js_match :: "jsstring \<Rightarrow> regex \<Rightarrow> match_array option" where
  "js_match s r = map_option (\<lambda>(m, c, _). c(0 := Some m)) (search r s)"

text \<open>
  \<open>m[k]\<close> where the source uses it as a string: every group read this way lies on every
  path through its regular expression (lemma \<open>js_match_group\<close> below), so the
  \<^verbatim>\<open>undefined\<close> branch is never taken.
\<close>

definition grp :: "match_array \<Rightarrow> nat \<Rightarrow> jsstring" where
  "grp m k = (case m k of None \<Rightarrow> [] | Some g \<Rightarrow> g)"

text \<open>
  The loop \<^verbatim>\<open>while ((match = re.exec(s)) !== null)\<close> of a \<^verbatim>\<open>g\<close> regular expression: each
  search starts where the last match ended. After an empty match \<^verbatim>\<open>lastIndex\<close> does not
  advance and the loop never ends: that is \<open>None\<close>.
\<close>

function exec_all :: "regex \<Rightarrow> jsstring \<Rightarrow> match_array list option" where
  "exec_all r s =
     (case search r s of
        None \<Rightarrow> Some []
      | Some (m, c, rest) \<Rightarrow>
          if m \<noteq> [] \<and> length rest < length s
          then map_option ((#) (c(0 := Some m))) (exec_all r rest)
          else None)"
  by pat_completeness auto
termination
  by (relation "measure (\<lambda>(r, s). length s)") auto

declare exec_all.simps [simp del]

section \<open>The literals of the source\<close>

named_theorems lits \<open>the Hangul literals, romanised\<close>

definition u_chae :: nat where "u_chae = 0xCC44"
definition u_geun :: nat where "u_geun = 0xADFC"
definition u_im :: nat where "u_im = 0xC784"
definition u_gong :: nat where "u_gong = 0xACF5"

definition k_geum :: jsstring where [lits]: "k_geum = [0xAE08]"
definition k_won :: jsstring where [lits]: "k_won = [0xC6D0]"
definition k_ji :: jsstring where [lits]: "k_ji = [0xC9C0]"
definition k_ha :: jsstring where [lits]: "k_ha = [0xD558]"
definition k_cheung :: jsstring where [lits]: "k_cheung = [0xCE35]"
definition k_oktap :: jsstring where [lits]: "k_oktap = [0xC625, 0xD0D1]"
definition k_sqm :: jsstring where [lits]: "k_sqm = [0x33A1]"
definition k_goyubeonho :: jsstring where
  [lits]: "k_goyubeonho = [0xACE0, 0xC720, 0xBC88, 0xD638]"
definition k_geonmul :: jsstring where [lits]: "k_geonmul = [0xAC74, 0xBB3C]"
definition k_jiphapgeonmul :: jsstring where
  [lits]: "k_jiphapgeonmul = [0xC9D1, 0xD569, 0xAC74, 0xBB3C]"
definition k_lbr :: jsstring where [lits]: "k_lbr = [0x3010]"
definition k_sojaejibeon :: jsstring where
  [lits]: "k_sojaejibeon = [0xC18C, 0xC7AC, 0xC9C0, 0xBC88]"
definition k_geonmulmyeongching :: jsstring where
  [lits]: "k_geonmulmyeongching = [0xAC74, 0xBB3C, 0xBA85, 0xCE6D]"
definition k_mich :: jsstring where [lits]: "k_mich = [0xBC0F]"
definition k_beonho :: jsstring where [lits]: "k_beonho = [0xBC88, 0xD638]"
definition k_doromyeongjuso :: jsstring where
  [lits]: "k_doromyeongjuso = [0xB3C4, 0xB85C, 0xBA85, 0xC8FC, 0xC18C]"
definition k_cheolgeunkonkeuriteugujo :: jsstring where
  [lits]: "k_cheolgeunkonkeuriteugujo =
     [0xCCA0, 0xADFC, 0xCF58, 0xD06C, 0xB9AC, 0xD2B8, 0xAD6C, 0xC870]"
definition k_cheolgolcheolgeunkonkeuriteugujo :: jsstring where
  [lits]: "k_cheolgolcheolgeunkonkeuriteugujo =
     [0xCCA0, 0xACE8, 0xCCA0, 0xADFC, 0xCF58, 0xD06C, 0xB9AC, 0xD2B8, 0xAD6C, 0xC870]"
definition k_mokgujo :: jsstring where [lits]: "k_mokgujo = [0xBAA9, 0xAD6C, 0xC870]"
definition k_byeokdolgujo :: jsstring where
  [lits]: "k_byeokdolgujo = [0xBCBD, 0xB3CC, 0xAD6C, 0xC870]"
definition k_beulrokgujo :: jsstring where
  [lits]: "k_beulrokgujo = [0xBE14, 0xB85D, 0xAD6C, 0xC870]"
definition k_gyeongryangcheolgolgujo :: jsstring where
  [lits]: "k_gyeongryangcheolgolgujo = [0xACBD, 0xB7C9, 0xCCA0, 0xACE8, 0xAD6C, 0xC870]"
definition k_cheolgeun :: jsstring where [lits]: "k_cheolgeun = [0xCCA0, 0xADFC]"
definition k_konkeuriteu :: jsstring where
  [lits]: "k_konkeuriteu = [0xCF58, 0xD06C, 0xB9AC, 0xD2B8]"
definition k_jibung :: jsstring where [lits]: "k_jibung = [0xC9C0, 0xBD95]"
definition k_giwa :: jsstring where [lits]: "k_giwa = [0xAE30, 0xC640]"
definition k_seulreiteu :: jsstring where
  [lits]: "k_seulreiteu = [0xC2AC, 0xB808, 0xC774, 0xD2B8]"
definition k_apateu :: jsstring where [lits]: "k_apateu = [0xC544, 0xD30C, 0xD2B8]"
definition k_opiseutel :: jsstring where [lits]: "k_opiseutel = [0xC624, 0xD53C, 0xC2A4, 0xD154]"
definition k_dasedaejutaek :: jsstring where
  [lits]: "k_dasedaejutaek = [0xB2E4, 0xC138, 0xB300, 0xC8FC, 0xD0DD]"
definition k_dagagujutaek :: jsstring where
  [lits]: "k_dagagujutaek = [0xB2E4, 0xAC00, 0xAD6C, 0xC8FC, 0xD0DD]"
definition k_dandokjutaek :: jsstring where
  [lits]: "k_dandokjutaek = [0xB2E8, 0xB3C5, 0xC8FC, 0xD0DD]"
definition k_geunrinsaenghwalsiseol :: jsstring where
  [lits]: "k_geunrinsaenghwalsiseol = [0xADFC, 0xB9B0, 0xC0DD, 0xD65C, 0xC2DC, 0xC124]"
definition k_je :: jsstring where [lits]: "k_je = [0xC81C]"
definition k_jonggeunrinsaenghwalsiseol :: jsstring where
  [lits]: "k_jonggeunrinsaenghwalsiseol =
     [0xC885, 0xADFC, 0xB9B0, 0xC0DD, 0xD65C, 0xC2DC, 0xC124]"
definition k_sangga :: jsstring where [lits]: "k_sangga = [0xC0C1, 0xAC00]"
definition k_eopmusiseol :: jsstring where
  [lits]: "k_eopmusiseol = [0xC5C5, 0xBB34, 0xC2DC, 0xC124]"
definition k_jutaek :: jsstring where [lits]: "k_jutaek = [0xC8FC, 0xD0DD]"
definition k_daejigwonbiyul :: jsstring where
  [lits]: "k_daejigwonbiyul = [0xB300, 0xC9C0, 0xAD8C, 0xBE44, 0xC728]"
definition k_bunui :: jsstring where [lits]: "k_bunui = [0xBD84, 0xC758]"
definition k_jeonyububun :: jsstring where
  [lits]: "k_jeonyububun = [0xC804, 0xC720, 0xBD80, 0xBD84]"
definition k_geonmului :: jsstring where [lits]: "k_geonmului = [0xAC74, 0xBB3C, 0xC758]"
definition k_pyosi :: jsstring where [lits]: "k_pyosi = [0xD45C, 0xC2DC]"
definition k_gap :: jsstring where [lits]: "k_gap = [0xAC11]"
definition k_gu :: jsstring where [lits]: "k_gu = [0xAD6C]"
definition k_rbr :: jsstring where [lits]: "k_rbr = [0x3011]"
definition k_eul :: jsstring where [lits]: "k_eul = [0xC744]"
definition k_mae :: jsstring where [lits]: "k_mae = [0xB9E4]"
definition k_mok :: jsstring where [lits]: "k_mok = [0xBAA9]"
definition k_rok :: jsstring where [lits]: "k_rok = [0xB85D]"
definition k_soyugwonbojon :: jsstring where
  [lits]: "k_soyugwonbojon = [0xC18C, 0xC720, 0xAD8C, 0xBCF4, 0xC874]"
definition k_soyugwonijeon :: jsstring where
  [lits]: "k_soyugwonijeon = [0xC18C, 0xC720, 0xAD8C, 0xC774, 0xC804]"
definition k_gaapryu :: jsstring where [lits]: "k_gaapryu = [0xAC00, 0xC555, 0xB958]"
definition k_apryu :: jsstring where [lits]: "k_apryu = [0xC555, 0xB958]"
definition k_gyeongmaegaesigyeoljeong :: jsstring where
  [lits]: "k_gyeongmaegaesigyeoljeong = [0xACBD, 0xB9E4, 0xAC1C, 0xC2DC, 0xACB0, 0xC815]"
definition k_imuigyeongmaegaesigyeoljeong :: jsstring where
  [lits]: "k_imuigyeongmaegaesigyeoljeong =
     [0xC784, 0xC758, 0xACBD, 0xB9E4, 0xAC1C, 0xC2DC, 0xACB0, 0xC815]"
definition k_gangjegyeongmaegaesigyeoljeong :: jsstring where
  [lits]: "k_gangjegyeongmaegaesigyeoljeong =
     [0xAC15, 0xC81C, 0xACBD, 0xB9E4, 0xAC1C, 0xC2DC, 0xACB0, 0xC815]"
definition k_gacheobun :: jsstring where [lits]: "k_gacheobun = [0xAC00, 0xCC98, 0xBD84]"
definition k_deunggimalso :: jsstring where
  [lits]: "k_deunggimalso = [0xB4F1, 0xAE30, 0xB9D0, 0xC18C]"
definition k_soyugwonijeondeunggimalso :: jsstring where
  [lits]: "k_soyugwonijeondeunggimalso =
     [0xC18C, 0xC720, 0xAD8C, 0xC774, 0xC804, 0xB4F1, 0xAE30, 0xB9D0, 0xC18C]"
definition k_nyeon :: jsstring where [lits]: "k_nyeon = [0xB144]"
definition k_wol :: jsstring where [lits]: "k_wol = [0xC6D4]"
definition k_il :: jsstring where [lits]: "k_il = [0xC77C]"
definition k_ho :: jsstring where [lits]: "k_ho = [0xD638]"
definition k_deung :: jsstring where [lits]: "k_deung = [0xB4F1]"
definition k_gi :: jsstring where [lits]: "k_gi = [0xAE30]"
definition k_in :: jsstring where [lits]: "k_in = [0xC778]"
definition k_gwonrija :: jsstring where [lits]: "k_gwonrija = [0xAD8C, 0xB9AC, 0xC790]"
definition k_soyuja :: jsstring where [lits]: "k_soyuja = [0xC18C, 0xC720, 0xC790]"
definition k_chaegwonja :: jsstring where [lits]: "k_chaegwonja = [0xCC44, 0xAD8C, 0xC790]"
definition k_maemae :: jsstring where [lits]: "k_maemae = [0xB9E4, 0xB9E4]"
definition k_sangsok :: jsstring where [lits]: "k_sangsok = [0xC0C1, 0xC18D]"
definition k_jeungyeo :: jsstring where [lits]: "k_jeungyeo = [0xC99D, 0xC5EC]"
definition k_sintak :: jsstring where [lits]: "k_sintak = [0xC2E0, 0xD0C1]"
definition k_gyeongrak :: jsstring where [lits]: "k_gyeongrak = [0xACBD, 0xB77D]"
definition k_cheonggugeumaek :: jsstring where
  [lits]: "k_cheonggugeumaek = [0xCCAD, 0xAD6C, 0xAE08, 0xC561]"
definition k_beon :: jsstring where [lits]: "k_beon = [0xBC88]"
definition k_malso :: jsstring where [lits]: "k_malso = [0xB9D0, 0xC18C]"
definition k_juyo :: jsstring where [lits]: "k_juyo = [0xC8FC, 0xC694]"
definition k_deunggisahang :: jsstring where
  [lits]: "k_deunggisahang = [0xB4F1, 0xAE30, 0xC0AC, 0xD56D]"
definition k_yoyak :: jsstring where [lits]: "k_yoyak = [0xC694, 0xC57D]"
definition k_chulryeokilsi :: jsstring where
  [lits]: "k_chulryeokilsi = [0xCD9C, 0xB825, 0xC77C, 0xC2DC]"
definition k_geunjeodanggwonseoljeong :: jsstring where
  [lits]: "k_geunjeodanggwonseoljeong = [0xADFC, 0xC800, 0xB2F9, 0xAD8C, 0xC124, 0xC815]"
definition k_geunjeodanggwonijeon :: jsstring where
  [lits]: "k_geunjeodanggwonijeon = [0xADFC, 0xC800, 0xB2F9, 0xAD8C, 0xC774, 0xC804]"
definition k_geunjilgwonseoljeong :: jsstring where
  [lits]: "k_geunjilgwonseoljeong = [0xADFC, 0xC9C8, 0xAD8C, 0xC124, 0xC815]"
definition k_jutaekimchagwon :: jsstring where
  [lits]: "k_jutaekimchagwon = [0xC8FC, 0xD0DD, 0xC784, 0xCC28, 0xAD8C]"
definition k_jeonsegwonseoljeong :: jsstring where
  [lits]: "k_jeonsegwonseoljeong = [0xC804, 0xC138, 0xAD8C, 0xC124, 0xC815]"
definition k_jeodanggwonseoljeong :: jsstring where
  [lits]: "k_jeodanggwonseoljeong = [0xC800, 0xB2F9, 0xAD8C, 0xC124, 0xC815]"
definition k_imchagwonseoljeong :: jsstring where
  [lits]: "k_imchagwonseoljeong = [0xC784, 0xCC28, 0xAD8C, 0xC124, 0xC815]"
definition k_deunggi :: jsstring where [lits]: "k_deunggi = [0xB4F1, 0xAE30]"
definition k_chaegwon :: jsstring where [lits]: "k_chaegwon = [0xCC44, 0xAD8C]"
definition k_chaemu :: jsstring where [lits]: "k_chaemu = [0xCC44, 0xBB34]"
definition k_geunjeo :: jsstring where [lits]: "k_geunjeo = [0xADFC, 0xC800]"
definition k_imcha :: jsstring where [lits]: "k_imcha = [0xC784, 0xCC28]"
definition k_seoljeonggyeyak :: jsstring where
  [lits]: "k_seoljeonggyeyak = [0xC124, 0xC815, 0xACC4, 0xC57D]"
definition k_chugaseoljeonggyeyak :: jsstring where
  [lits]: "k_chugaseoljeonggyeyak = [0xCD94, 0xAC00, 0xC124, 0xC815, 0xACC4, 0xC57D]"
definition k_hwakjeongchaegwonyangdo :: jsstring where
  [lits]: "k_hwakjeongchaegwonyangdo = [0xD655, 0xC815, 0xCC44, 0xAD8C, 0xC591, 0xB3C4]"
definition k_gyeyakinsu :: jsstring where
  [lits]: "k_gyeyakinsu = [0xACC4, 0xC57D, 0xC778, 0xC218]"
definition k_chaegwonchoegoaek :: jsstring where
  [lits]: "k_chaegwonchoegoaek = [0xCC44, 0xAD8C, 0xCD5C, 0xACE0, 0xC561]"
definition k_chae :: jsstring where [lits]: "k_chae = [0xCC44]"
definition k_geun :: jsstring where [lits]: "k_geun = [0xADFC]"
definition k_chaemuja :: jsstring where [lits]: "k_chaemuja = [0xCC44, 0xBB34, 0xC790]"
definition k_im :: jsstring where [lits]: "k_im = [0xC784]"
definition k_gong :: jsstring where [lits]: "k_gong = [0xACF5]"
definition k_geunjeodanggwonja :: jsstring where
  [lits]: "k_geunjeodanggwonja = [0xADFC, 0xC800, 0xB2F9, 0xAD8C, 0xC790]"
definition k_imchabojeunggeum :: jsstring where
  [lits]: "k_imchabojeunggeum = [0xC784, 0xCC28, 0xBCF4, 0xC99D, 0xAE08]"
definition k_cha :: jsstring where [lits]: "k_cha = [0xCC28]"
definition k_imdaechagyeyakilja :: jsstring where
  [lits]: "k_imdaechagyeyakilja = [0xC784, 0xB300, 0xCC28, 0xACC4, 0xC57D, 0xC77C, 0xC790]"
definition k_jumindeungrokilja :: jsstring where
  [lits]: "k_jumindeungrokilja = [0xC8FC, 0xBBFC, 0xB4F1, 0xB85D, 0xC77C, 0xC790]"
definition k_jeomyugaesiilja :: jsstring where
  [lits]: "k_jeomyugaesiilja = [0xC810, 0xC720, 0xAC1C, 0xC2DC, 0xC77C, 0xC790]"
definition k_hwakjeongilja :: jsstring where
  [lits]: "k_hwakjeongilja = [0xD655, 0xC815, 0xC77C, 0xC790]"
definition k_imchagwonja :: jsstring where
  [lits]: "k_imchagwonja = [0xC784, 0xCC28, 0xAD8C, 0xC790]"
definition k_beom :: jsstring where [lits]: "k_beom = [0xBC94]"
definition k_wi :: jsstring where [lits]: "k_wi = [0xC704]"
definition k_yeonmyeonjeokjeoe :: jsstring where
  [lits]: "k_yeonmyeonjeokjeoe = [0xC5F0, 0xBA74, 0xC801, 0xC81C, 0xC678]"

section \<open>The regular expressions of the source\<close>


text \<open>A date, a rank number, an amount of money, a resident and a business number.\<close>

definition date_re :: regex where
  [rx]: "date_re =
     seqs [rep 4 digit, Lit k_nyeon, ws, rep_range 1 2 digit, Lit k_wol, ws,
       rep_range 1 2 digit, Lit k_il]"

definition rank_re :: regex where
  [rx]: "rank_re = seqs [digits, opt (seqs [Lit (ascii ''-''), digits])]"

definition money_re :: regex where
  [rx]: "money_re = seqs [Lit k_geum, plus (OneOf [CDigit, CChar u_comma]), Lit k_won]"

definition resident_no_re :: regex where
  [rx]: "resident_no_re = seqs [rep 6 digit, Lit (ascii ''-''), rep 7 (Lit (ascii ''*''))]"

definition business_no_re :: regex where
  [rx]: "business_no_re =
     seqs [rep 3 digit, Lit (ascii ''-''), rep 2 digit, Lit (ascii ''-''), rep 5 digit]"

definition trade_list_heading :: regex where
  [rx]: "trade_list_heading =
     seqs [Lit k_lbr, ws, Lit k_mae, ws, Lit k_mae, ws, Lit k_mok, ws, Lit k_rok, ws,
       Lit k_rbr]"

definition amount_re :: regex where
  [rx]: "amount_re =
     seqs [Lit k_geum, ws, Group 1 (plus (OneOf [CDigit, CChar u_comma])), ws, Lit k_won]"

definition floor_area_re :: regex where
  [rx]: "floor_area_re =
     seqs [Group 1 (alts [seqs [Lit k_ji, opt (Lit k_ha), digits, Lit k_cheung], seqs
       [digits, Lit k_cheung], seqs [Lit k_oktap, digits, Lit k_cheung]]), ws, Group 2
       (plus (OneOf [CDigit, CChar u_comma, CChar u_period])), ws, Lit k_sqm]"

definition unique_number_re :: regex where
  [rx]: "unique_number_re =
     seqs [Lit k_goyubeonho, ws, Group 1 (plus (OneOf [CDigit, CChar u_hyphen]))]"

definition address_re :: regex where
  [rx]: "address_re =
     seqs [Lit (ascii ''[''), alts [Lit k_geonmul, Lit k_jiphapgeonmul], Lit (ascii
       '']''), ws, Group 1 (lazy_plus dot), alts [Lit [u_newline], Lit k_lbr]]"

definition title_address_re :: regex where
  [rx]: "title_address_re =
     seqs [Lit k_sojaejibeon, Star (OneOf [CChar u_comma, CSpace]), Lit
       (k_geonmulmyeongching @ ascii '' '' @ k_mich @ ascii '' '' @ k_beonho), LazyStar
       dot_all, Lit [u_newline], LazyStar dot_all, opt (Lit [u_newline]), ws, Group 1
       (plus (NoneOf [CChar u_newline]))]"

definition road_address_re :: regex where
  [rx]: "road_address_re =
     seqs [Lit (ascii ''['' @ k_doromyeongjuso @ ascii '']''), ws, opt (Lit [u_newline]),
       ws, Group 1 (plus (NoneOf [CChar u_newline]))]"

definition structure_re :: regex where
  [rx]: "structure_re =
     Group 1 (alts [Lit k_cheolgeunkonkeuriteugujo, Lit
       k_cheolgolcheolgeunkonkeuriteugujo, Lit k_mokgujo, Lit k_byeokdolgujo, Lit
       k_beulrokgujo, Lit k_gyeongryangcheolgolgujo])"

definition roof_re :: regex where
  [rx]: "roof_re =
     alts [seqs [Lit (ascii ''('' @ k_cheolgeun), opt (Lit (ascii '')'')), Lit
       k_konkeuriteu, ws, Lit k_jibung], seqs [Lit (ascii ''('' @ k_giwa @ ascii '')''),
       ws, Lit k_jibung], seqs [Lit (ascii ''('' @ k_seulreiteu @ ascii '')''), ws, Lit
       k_jibung]]"

definition floors_re :: regex where
  [rx]: "floors_re =
     seqs [Group 1 digits, Lit k_cheung]"

definition building_type_re :: regex where
  [rx]: "building_type_re =
     Group 1 (alts [Lit k_apateu, Lit k_opiseutel, Lit k_dasedaejutaek, Lit
       k_dagagujutaek, Lit k_dandokjutaek, Lit k_geunrinsaenghwalsiseol, Lit (k_je @ ascii
       ''2'' @ k_jonggeunrinsaenghwalsiseol), Lit k_sangga, Lit k_eopmusiseol, Lit
       k_jutaek])"

definition ratio_re :: regex where
  [rx]: "ratio_re =
     seqs [Lit k_daejigwonbiyul, ws, opt (Lit [u_newline]), ws, Group 1 digits, Lit
       k_bunui, ws, Group 2 (plus (OneOf [CDigit, CChar u_period]))]"

definition exclusive_re :: regex where
  [rx]: "exclusive_re =
     seqs [Lit k_jeonyububun, LazyStar dot_all, Lit (k_geonmului @ ascii '' '' @ k_pyosi),
       LazyStar dot_all, Group 1 (plus (OneOf [CDigit, CChar u_comma, CChar u_period])),
       ws, Lit k_sqm]"

text \<open>The headings of section A and of section B, and the text of a section.\<close>

definition headingA_re :: regex where
  [rx]: "headingA_re = seqs [Lit k_lbr, ws, Lit k_gap, ws, Lit k_gu, ws, Lit k_rbr]"

definition headingB_re :: regex where
  [rx]: "headingB_re = seqs [Lit k_lbr, ws, Lit k_eul, ws, Lit k_gu, ws, Lit k_rbr]"

definition sectionA_re :: regex where
  [rx]: "sectionA_re =
     seqs [headingA_re, LazyStar dot_all, Ahead (alts [headingB_re, trade_list_heading, End])]"

definition receipt_re :: regex where
  [rx]: "receipt_re =
     seqs [Group 1 date_re, ws, opt (Lit k_je), ws, Group 2 (seqs [digits, Lit k_ho])]"

definition causeA_re :: regex where
  [rx]: "causeA_re =
     seqs [Lit k_deung, ws, Lit k_gi, ws, Lit k_won, ws, Lit k_in, ws, opt (Lit
       [u_newline]), ws, Group 1 (LazyStar any_char), Ahead (alts [Lit k_gwonrija, Lit
       k_soyuja, Lit k_chaegwonja, End])]"

definition causeDateA_re :: regex where
  [rx]: "causeDateA_re =
     seqs [Group 1 date_re, ws, alts [Lit k_maemae, Lit k_sangsok, Lit k_jeungyeo, Lit
       k_sintak, Lit k_gyeongrak]]"

definition owner_re :: regex where
  [rx]: "owner_re =
     seqs [Lit k_soyuja, ws1, Group 1 (plus (NoneOf [CDigit])), ws1, opt (Group 2
       resident_no_re), ws, opt (Lit [u_newline]), ws, Group 3 (Star (NoneOf [CChar
       u_newline]))]"

definition creditor_re :: regex where
  [rx]: "creditor_re =
     seqs [Lit k_chaegwonja, ws1, Group 1 (plus (NoneOf [CDigit])), ws1, opt (Group 2
       (alts [resident_no_re, business_no_re])), ws, opt (Lit [u_newline]), ws, Group 3
       (Star (NoneOf [CChar u_newline]))]"

definition claim_amount_re :: regex where
  [rx]: "claim_amount_re =
     seqs [Lit k_cheonggugeumaek, ws, Group 1 money_re]"

definition cancellation_re :: regex where
  [rx]: "cancellation_re =
     Group 1 (seqs [digits, Lit k_beon, Star (NoneOf [CChar u_newline]), Lit k_malso])"

definition sectionB_re :: regex where
  [rx]: "sectionB_re =
     seqs [headingB_re, LazyStar any_char,
       Ahead (alts [trade_list_heading,
                    seqs [Lit k_juyo, ws, Lit k_deunggisahang, ws, Lit k_yoyak],
                    Lit k_chulryeokilsi, End])]"

definition causeB_re :: regex where
  [rx]: "causeB_re =
     seqs [Lit k_deung, ws, Lit k_gi, ws, Lit k_won, ws, Lit k_in, ws, opt (Lit
       [u_newline]), ws, Group 1 (LazyStar any_char), Ahead (alts [Lit k_chaegwon, Lit
       k_chaemu, Lit k_geunjeo, Lit k_imcha, End])]"

definition causeDateB_re :: regex where
  [rx]: "causeDateB_re =
     seqs [Group 1 date_re, ws, alts [Lit k_seoljeonggyeyak, Lit k_chugaseoljeonggyeyak,
       Lit k_hwakjeongchaegwonyangdo, Lit k_gyeyakinsu]]"

definition max_claim_re :: regex where
  [rx]: "max_claim_re =
     seqs [Lit k_chaegwonchoegoaek, ws, Group 1 money_re]"

definition debtor_re :: regex where
  [rx]: "debtor_re =
     seqs [Lit k_chaemuja, ws1, Group 1 (plus (NoneOf [CDigit, CChar u_newline])), ws1,
       opt (Group 2 (alts [resident_no_re, business_no_re])), ws, opt (Lit [u_newline]),
       ws, Group 3 (Star (NoneOf [CChar u_newline, CChar u_chae, CChar u_geun]))]"

definition mortgagee_re :: regex where
  [rx]: "mortgagee_re =
     seqs [Lit k_geunjeodanggwonja, ws1, Group 1 (plus (NoneOf [CDigit, CChar
       u_newline])), ws1, opt (Group 2 (alts [business_no_re, resident_no_re])), ws, opt
       (Lit [u_newline]), ws, Group 3 (Star (NoneOf [CChar u_newline, CChar u_im, CChar
       u_chae, CChar u_gong]))]"

definition deposit_re :: regex where
  [rx]: "deposit_re =
     seqs [Lit k_imchabojeunggeum, ws, Group 1 money_re]"

definition monthly_rent_re :: regex where
  [rx]: "monthly_rent_re =
     seqs [Lit k_cha, ws, Lit k_im, ws, opt (Lit k_wol), ws, opt (Lit k_geum), ws, Group 1
       money_re]"

definition contract_date_re :: regex where
  [rx]: "contract_date_re =
     seqs [Lit k_imdaechagyeyakilja, ws, Group 1 date_re]"

definition resident_reg_re :: regex where
  [rx]: "resident_reg_re =
     seqs [Lit k_jumindeungrokilja, ws, Group 1 date_re]"

definition possession_re :: regex where
  [rx]: "possession_re =
     seqs [Lit k_jeomyugaesiilja, ws, Group 1 date_re]"

definition fixed_date_re :: regex where
  [rx]: "fixed_date_re =
     seqs [Lit k_hwakjeongilja, ws, Group 1 date_re]"

definition lessee_re :: regex where
  [rx]: "lessee_re =
     seqs [Lit k_imchagwonja, ws1, Group 1 (plus (NoneOf [CDigit, CChar u_newline])), ws1,
       opt (Group 2 resident_no_re), ws, opt (Lit [u_newline]), ws, Group 3 (Star (NoneOf
       [CChar u_newline]))]"

definition lease_area_re :: regex where
  [rx]: "lease_area_re =
     seqs [Lit k_beom, ws, Lit k_wi, ws, Group 1 (LazyStar any_char), Ahead (alts [Lit
       k_imdaechagyeyakilja, End])]"

section \<open>Amounts\<close>

definition parseAmount :: "jsstring \<Rightarrow> jsnumber option" where
  "parseAmount text =
     (if text = [] then None
      else (case js_match text amount_re of
              Some m \<Rightarrow> Some (parseInt (remove_commas (grp m 1)))
            | None \<Rightarrow> None))"

section \<open>The data model (\<^verbatim>\<open>src/types/registry.ts\<close>)\<close>

text \<open>
  An interface is a record; an optional property, and any property that may hold
  \<^verbatim>\<open>undefined\<close>, is an \<open>option\<close>. Numbers produced by \<^verbatim>\<open>parseInt\<close> are \<open>jsnumber\<close>, those
  produced by \<^verbatim>\<open>parseFloat\<close> are \<open>jsfloat\<close>.
\<close>

datatype PropertyType = building | aggregate_building

text \<open>The string a \<open>PropertyType\<close> is at run time.\<close>

fun PropertyType_string :: "PropertyType \<Rightarrow> string" where
  "PropertyType_string building = ''building''"
| "PropertyType_string aggregate_building = ''aggregate_building''"

record FloorArea =
  floor :: jsstring
  area :: jsfloat
  isExcluded :: "bool option"

record LandRight =
  address :: jsstring
  landType :: jsstring
  area :: jsfloat

record RegistryTitleInfo =
  uniqueNumber :: jsstring
  propertyType :: PropertyType
  address :: jsstring
  roadAddress :: "jsstring option"
  buildingName :: "jsstring option"
  "structure" :: jsstring
  roofType :: jsstring
  floors :: jsnumber
  buildingType :: jsstring
  areas :: "FloorArea list"
  landRights :: "LandRight list option"
  exclusiveArea :: "jsfloat option"
  landRightRatio :: "jsstring option"

record OwnerInfo =
  name :: jsstring
  residentNumber :: "jsstring option"
  address :: "jsstring option"
  share :: "jsstring option"

record CreditorInfo =
  name :: jsstring
  residentNumber :: "jsstring option"
  address :: "jsstring option"

record LesseeInfo =
  name :: jsstring
  residentNumber :: "jsstring option"
  address :: "jsstring option"

record LeaseTermInfo =
  contractDate :: jsstring
  residentRegistrationDate :: "jsstring option"
  possessionStartDate :: "jsstring option"
  fixedDate :: "jsstring option"

text \<open>
  \<open>SectionAEntry\<close> has the properties of the interface and, last, the two properties
  \<open>owner\<close> and \<open>cancellationInfo\<close> that \<^verbatim>\<open>parseSectionAEntries\<close> writes into its object
  literal although the interface does not declare them. The interface declares \<open>owners\<close>
  as required; the parser never writes it, so it can be \<^verbatim>\<open>undefined\<close> at run time (and
  \<^verbatim>\<open>maskForDemo\<close> reads it as \<^verbatim>\<open>entry.owners ?? []\<close>).
\<close>

record SectionAEntry =
  rankNumber :: jsstring
  registrationType :: jsstring
  receiptDate :: jsstring
  receiptNumber :: jsstring
  registrationCause :: jsstring
  registrationCauseDate :: "jsstring option"
  owners :: "OwnerInfo list option"
  creditor :: "CreditorInfo option"
  claimAmount :: "jsnumber option"
  restriction :: "jsstring option"
  isCancelled :: "bool option"
  cancelledByRank :: "jsstring option"
  cancellationDate :: "jsstring option"
  cancellationCause :: "jsstring option"
  cancelsRank :: "jsstring option"
  remarks :: "jsstring option"
  owner :: "OwnerInfo option"
  cancellationInfo :: "jsstring option"

record SectionBEntry =
  rankNumber :: jsstring
  registrationType :: jsstring
  receiptDate :: jsstring
  receiptNumber :: jsstring
  registrationCause :: jsstring
  registrationCauseDate :: "jsstring option"
  maxClaimAmount :: "jsnumber option"
  debtor :: "OwnerInfo option"
  mortgagee :: "CreditorInfo option"
  depositAmount :: "jsnumber option"
  monthlyRent :: "jsnumber option"
  leaseTerm :: "LeaseTermInfo option"
  lessee :: "LesseeInfo option"
  leaseArea :: "jsstring option"
  jeonseDeposit :: "jsnumber option"
  jeonseRightHolder :: "CreditorInfo option"
  isCancelled :: "bool option"
  cancellationInfo :: "jsstring option"

text \<open>
  \<open>RegistryData\<close> as \<^verbatim>\<open>parseRegistryPDF\<close> builds it. The optional \<^verbatim>\<open>trade_lists\<close> and
  \<^verbatim>\<open>summary\<close> of the interface are never written nor read by the code modelled here and
  are left out.
\<close>

record RegistryData =
  uniqueNumber :: jsstring
  propertyType :: PropertyType
  propertyAddress :: jsstring
  titleInfo :: RegistryTitleInfo
  sectionA :: "SectionAEntry list"
  sectionB :: "SectionBEntry list"
  rawText :: jsstring
  parseDate :: jsstring

text \<open>The property names of the object literal that \<^verbatim>\<open>parseRegistryPDF\<close> returns.\<close>

definition RegistryData_properties :: "string list" where
  "RegistryData_properties =
     [''uniqueNumber'', ''propertyType'', ''propertyAddress'', ''titleInfo'', ''sectionA'',
      ''sectionB'', ''rawText'', ''parseDate'']"

text \<open>
  What \<^verbatim>\<open>maskForDemo\<close> returns is typed \<^verbatim>\<open>Partial<RegistryData>\<close>: it has no \<^verbatim>\<open>rawText\<close>, and
  its \<^verbatim>\<open>sectionB\<close> holds object literals with three strings and five properties set to
  \<^verbatim>\<open>undefined\<close>.
\<close>

record MaskedSectionBEntry =
  rankNumber :: jsstring
  registrationType :: jsstring
  receiptDate :: jsstring
  maxClaimAmount :: "jsnumber option"
  depositAmount :: "jsnumber option"
  mortgagee :: "CreditorInfo option"
  lessee :: "LesseeInfo option"
  leaseTerm :: "LeaseTermInfo option"

record PartialRegistryData =
  uniqueNumber :: jsstring
  propertyType :: PropertyType
  propertyAddress :: jsstring
  titleInfo :: RegistryTitleInfo
  sectionA :: "SectionAEntry list"
  sectionB :: "MaskedSectionBEntry list"
  parseDate :: jsstring

text \<open>
  \<^verbatim>\<open>ParseResponse.data\<close> holds either value (the source casts the masked one to
  \<^verbatim>\<open>RegistryData\<close>).
\<close>

datatype response_data = Full RegistryData | Masked PartialRegistryData

record ParseResponse =
  success :: bool
  data :: "response_data option"
  error :: "jsstring option"
  requestId :: jsstring
  isDemo :: bool

section \<open>The parser (\<^verbatim>\<open>src/lib/pdf-parser.ts\<close>)\<close>

text \<open>\<^verbatim>\<open>m?.[k]\<close> and \<^verbatim>\<open>x || ''\<close>\<close>

definition opt_group :: "match_array option \<Rightarrow> nat \<Rightarrow> jsstring option" where
  "opt_group mo k = (case mo of None \<Rightarrow> None | Some m \<Rightarrow> m k)"

definition or_empty :: "jsstring option \<Rightarrow> jsstring" where
  "or_empty x = (case x of None \<Rightarrow> [] | Some g \<Rightarrow> g)"

subsection \<open>The title section\<close>

definition floor_area_of_line :: "jsstring \<Rightarrow> FloorArea option" where
  "floor_area_of_line line =
     (case js_match line floor_area_re of
        None \<Rightarrow> None
      | Some m \<Rightarrow>
          Some \<lparr>floor = grp m 1,
                FloorArea.area = ParseFloat (remove_commas (grp m 2)),
                isExcluded = Some (js_includes line k_yeonmyeonjeokjeoe)\<rparr>)"

definition parseFloorAreas :: "jsstring \<Rightarrow> FloorArea list" where
  "parseFloorAreas text = List.map_filter floor_area_of_line (split_lines text)"

definition extractUniqueNumber :: "jsstring \<Rightarrow> jsstring" where
  "extractUniqueNumber text =
     (case js_match text unique_number_re of Some m \<Rightarrow> grp m 1 | None \<Rightarrow> [])"

definition detectPropertyType :: "jsstring \<Rightarrow> PropertyType" where
  "detectPropertyType text =
     (if js_includes text k_jiphapgeonmul then aggregate_building else building)"

definition extractAddress :: "jsstring \<Rightarrow> jsstring" where
  "extractAddress text =
     (case js_match text address_re of Some m \<Rightarrow> trim (grp m 1) | None \<Rightarrow> [])"

definition parseTitleSection :: "jsstring \<Rightarrow> RegistryTitleInfo" where
  "parseTitleSection text =
     (let uniqueNumber = extractUniqueNumber text;
          propertyType = detectPropertyType text;
          address = (case js_match text title_address_re of
                       Some m \<Rightarrow> trim (grp m 1) | None \<Rightarrow> []);
          roadAddress = (case js_match text road_address_re of
                           Some m \<Rightarrow> Some (trim (grp m 1)) | None \<Rightarrow> None);
          structure = (case js_match text structure_re of Some m \<Rightarrow> grp m 1 | None \<Rightarrow> []);
          roofType = (case js_match text roof_re of Some m \<Rightarrow> grp m 0 | None \<Rightarrow> []);
          floors = (case js_match text floors_re of
                      Some m \<Rightarrow> parseInt (grp m 1) | None \<Rightarrow> Num 0);
          buildingType = (case js_match text building_type_re of
                            Some m \<Rightarrow> grp m 1 | None \<Rightarrow> []);
          areas = parseFloorAreas text;
          landRightRatio =
            (if propertyType = aggregate_building
             then (case js_match text ratio_re of
                     Some m \<Rightarrow> Some (grp m 1 @ k_bunui @ ascii '' '' @ grp m 2)
                   | None \<Rightarrow> None)
             else None);
          exclusiveArea =
            (if propertyType = aggregate_building
             then (case js_match text exclusive_re of
                     Some m \<Rightarrow> Some (ParseFloat (remove_commas (grp m 1)))
                   | None \<Rightarrow> None)
             else None)
      in \<lparr>RegistryTitleInfo.uniqueNumber = uniqueNumber,
          RegistryTitleInfo.propertyType = propertyType,
          RegistryTitleInfo.address = address,
          roadAddress = roadAddress,
          buildingName = None,
          structure = structure,
          roofType = roofType,
          floors = floors,
          buildingType = buildingType,
          areas = areas,
          landRights = None,
          exclusiveArea = exclusiveArea,
          landRightRatio = landRightRatio\<rparr>)"

subsection \<open>Section A (ownership)\<close>

text \<open>The registration types that \<^verbatim>\<open>rowPattern\<close> of section A knows, in its order.\<close>

definition keywordsA :: "jsstring list" where
  "keywordsA =
     [k_soyugwonbojon, k_soyugwonijeon, k_gaapryu, k_apryu, k_gyeongmaegaesigyeoljeong,
      k_imuigyeongmaegaesigyeoljeong, k_gangjegyeongmaegaesigyeoljeong, k_gacheobun,
      k_deunggimalso, k_soyugwonijeondeunggimalso]"

text \<open>What ends a row of section A: the look-ahead of \<^verbatim>\<open>rowPattern\<close>.\<close>

definition row_endA :: regex where
  [rx]: "row_endA =
     alts [seqs [Lit [u_newline], rank_re, ws1], Lit ([u_newline] @ k_lbr),
       seqs [Lit [u_newline], ws, End]]"

definition rowPatternA :: regex where
  [rx]: "rowPatternA =
     seqs [Group 1 rank_re, ws1, Group 2 (alts (map Lit keywordsA)), LazyStar any_char,
       Ahead row_endA]"

text \<open>The body of the loop: the entry built from one match of \<^verbatim>\<open>rowPattern\<close>.\<close>

definition sectionA_entry :: "match_array \<Rightarrow> SectionAEntry" where
  "sectionA_entry match =
     (let fullMatch = grp match 0;
          rankNumber = grp match 1;
          registrationType = grp match 2;
          receiptMatch = js_match fullMatch receipt_re;
          receiptDate = (case receiptMatch of Some m \<Rightarrow> grp m 1 | None \<Rightarrow> []);
          receiptNumber = (case receiptMatch of Some m \<Rightarrow> grp m 2 | None \<Rightarrow> []);
          registrationCause = (case js_match fullMatch causeA_re of
                                 Some m \<Rightarrow> trim (grp m 1) | None \<Rightarrow> []);
          registrationCauseDate = (case js_match fullMatch causeDateA_re of
                                     Some m \<Rightarrow> Some (grp m 1) | None \<Rightarrow> None);
          owner = (case js_match fullMatch owner_re of
                     Some m \<Rightarrow>
                       Some \<lparr>OwnerInfo.name = trim (grp m 1),
                             OwnerInfo.residentNumber = m 2,
                             OwnerInfo.address = map_option trim (m 3),
                             share = None\<rparr>
                   | None \<Rightarrow> None);
          creditor = (case js_match fullMatch creditor_re of
                        Some m \<Rightarrow>
                          Some \<lparr>CreditorInfo.name = trim (grp m 1),
                                CreditorInfo.residentNumber = m 2,
                                CreditorInfo.address = map_option trim (m 3)\<rparr>
                      | None \<Rightarrow> None);
          claimAmount =
            parseAmount (or_empty (opt_group (js_match fullMatch claim_amount_re) 1));
          isCancelled = js_includes fullMatch k_malso;
          cancellationInfo =
            (if isCancelled then opt_group (js_match fullMatch cancellation_re) 1 else None)
      in \<lparr>SectionAEntry.rankNumber = rankNumber,
          SectionAEntry.registrationType = registrationType,
          SectionAEntry.receiptDate = receiptDate,
          SectionAEntry.receiptNumber = receiptNumber,
          SectionAEntry.registrationCause = registrationCause,
          SectionAEntry.registrationCauseDate = registrationCauseDate,
          owners = None,
          creditor = creditor,
          claimAmount = claimAmount,
          restriction = None,
          SectionAEntry.isCancelled = Some isCancelled,
          cancelledByRank = None,
          cancellationDate = None,
          cancellationCause = None,
          cancelsRank = None,
          remarks = None,
          owner = owner,
          SectionAEntry.cancellationInfo = cancellationInfo\<rparr>)"

text \<open>
  \<^verbatim>\<open>parseSectionAEntries\<close>: \<open>None\<close> is the loop that never ends (lemma
  \<open>parseSectionAEntries_returns\<close> shows that it does not occur).
\<close>

definition parseSectionAEntries :: "jsstring \<Rightarrow> SectionAEntry list option" where
  "parseSectionAEntries text =
     (case js_match text sectionA_re of
        None \<Rightarrow> Some []
      | Some sectionAMatch \<Rightarrow>
          map_option (map sectionA_entry) (exec_all rowPatternA (grp sectionAMatch 0)))"

subsection \<open>Section B (encumbrances)\<close>

definition keywordsB :: "jsstring list" where
  "keywordsB =
     [k_geunjeodanggwonseoljeong, k_geunjeodanggwonijeon, k_geunjilgwonseoljeong,
      k_jutaekimchagwon, k_jeonsegwonseoljeong, k_jeodanggwonseoljeong,
      k_imchagwonseoljeong]"

definition row_endB :: regex where
  [rx]: "row_endB =
     alts [seqs [Lit [u_newline], rank_re, ws1], Lit ([u_newline] @ k_lbr),
       Lit ([u_newline] @ k_chulryeokilsi), seqs [Lit ([u_newline] @ k_juyo), ws, Lit k_deunggi],
       End]"

definition rowPatternB :: regex where
  [rx]: "rowPatternB =
     seqs [Group 1 rank_re, ws1, Group 2 (alts (map Lit keywordsB)), LazyStar any_char,
       Ahead row_endB]"

definition sectionB_entry :: "match_array \<Rightarrow> SectionBEntry" where
  "sectionB_entry match =
     (let fullMatch = grp match 0;
          rankNumber = grp match 1;
          registrationType = grp match 2;
          receiptMatch = js_match fullMatch receipt_re;
          receiptDate = (case receiptMatch of Some m \<Rightarrow> grp m 1 | None \<Rightarrow> []);
          receiptNumber = (case receiptMatch of Some m \<Rightarrow> grp m 2 | None \<Rightarrow> []);
          registrationCause = (case js_match fullMatch causeB_re of
                                 Some m \<Rightarrow> trim (grp m 1) | None \<Rightarrow> []);
          registrationCauseDate = (case js_match fullMatch causeDateB_re of
                                     Some m \<Rightarrow> Some (grp m 1) | None \<Rightarrow> None);
          maxClaimAmount =
            parseAmount (or_empty (opt_group (js_match fullMatch max_claim_re) 1));
          debtor = (case js_match fullMatch debtor_re of
                      Some m \<Rightarrow>
                        Some \<lparr>OwnerInfo.name = trim (grp m 1),
                              OwnerInfo.residentNumber = m 2,
                              OwnerInfo.address = map_option trim (m 3),
                              share = None\<rparr>
                    | None \<Rightarrow> None);
          mortgagee = (case js_match fullMatch mortgagee_re of
                         Some m \<Rightarrow>
                           Some \<lparr>CreditorInfo.name = trim (grp m 1),
                                 CreditorInfo.residentNumber = m 2,
                                 CreditorInfo.address = map_option trim (m 3)\<rparr>
                       | None \<Rightarrow> None);
          depositAmount =
            parseAmount (or_empty (opt_group (js_match fullMatch deposit_re) 1));
          monthlyRent =
            parseAmount (or_empty (opt_group (js_match fullMatch monthly_rent_re) 1));
          contractDateMatch = js_match fullMatch contract_date_re;
          residentRegMatch = js_match fullMatch resident_reg_re;
          possessionMatch = js_match fullMatch possession_re;
          fixedDateMatch = js_match fullMatch fixed_date_re;
          leaseTerm = (case contractDateMatch of
                         Some m \<Rightarrow>
                           Some \<lparr>contractDate = grp m 1,
                                 residentRegistrationDate = opt_group residentRegMatch 1,
                                 possessionStartDate = opt_group possessionMatch 1,
                                 fixedDate = opt_group fixedDateMatch 1\<rparr>
                       | None \<Rightarrow> None);
          lessee = (case js_match fullMatch lessee_re of
                      Some m \<Rightarrow>
                        Some \<lparr>LesseeInfo.name = trim (grp m 1),
                              LesseeInfo.residentNumber = m 2,
                              LesseeInfo.address = map_option trim (m 3)\<rparr>
                    | None \<Rightarrow> None);
          leaseArea = (case js_match fullMatch lease_area_re of
                         Some m \<Rightarrow> Some (take 200 (trim (grp m 1))) | None \<Rightarrow> None);
          isCancelled = js_includes fullMatch k_malso
      in \<lparr>SectionBEntry.rankNumber = rankNumber,
          SectionBEntry.registrationType = registrationType,
          SectionBEntry.receiptDate = receiptDate,
          SectionBEntry.receiptNumber = receiptNumber,
          SectionBEntry.registrationCause = registrationCause,
          SectionBEntry.registrationCauseDate = registrationCauseDate,
          SectionBEntry.maxClaimAmount = maxClaimAmount,
          debtor = debtor,
          SectionBEntry.mortgagee = mortgagee,
          SectionBEntry.depositAmount = depositAmount,
          monthlyRent = monthlyRent,
          SectionBEntry.leaseTerm = leaseTerm,
          SectionBEntry.lessee = lessee,
          leaseArea = leaseArea,
          jeonseDeposit = None,
          jeonseRightHolder = None,
          SectionBEntry.isCancelled = Some isCancelled,
          SectionBEntry.cancellationInfo = None\<rparr>)"

definition parseSectionBEntries :: "jsstring \<Rightarrow> SectionBEntry list option" where
  "parseSectionBEntries text =
     (case js_match text sectionB_re of
        None \<Rightarrow> Some []
      | Some sectionBMatch \<Rightarrow>
          map_option (map sectionB_entry) (exec_all rowPatternB (grp sectionBMatch 0)))"

subsection \<open>The whole document\<close>

text \<open>
  The libraries \<^verbatim>\<open>pdf2json\<close> and \<^verbatim>\<open>pdf-parse\<close> are not part of the repository: what each
  of them does with the buffer is a parameter. \<^verbatim>\<open>pdf2json\<close> either fails (a rejected
  import or \<^verbatim>\<open>pdfParser_dataError\<close>) or delivers pages, each a list of text items, each a
  list of runs; a run is the string \<^verbatim>\<open>T\<close> as delivered, before \<^verbatim>\<open>decodeURIComponent\<close>.
  \<^verbatim>\<open>pdf-parse\<close> either throws or delivers a text.
\<close>

datatype pdf2json_result = Pdf2jsonError | Pdf2jsonReady "jsstring list list list"

datatype pdfparse_result = PdfParseError | PdfParseText jsstring

datatype thrown = Error jsstring | NotAnError

datatype 'a outcome = Returns 'a | Throws thrown | Hangs

definition k_tekseuteu :: jsstring where
  [lits]: "k_tekseuteu = [0xD14D, 0xC2A4, 0xD2B8]"
definition k_chuchule :: jsstring where
  [lits]: "k_chuchule = [0xCD94, 0xCD9C, 0xC5D0]"
definition k_silpaehaessseupnida :: jsstring where
  [lits]: "k_silpaehaessseupnida = [0xC2E4, 0xD328, 0xD588, 0xC2B5, 0xB2C8, 0xB2E4]"
definition k_al :: jsstring where
  [lits]: "k_al = [0xC54C]"
definition k_su :: jsstring where
  [lits]: "k_su = [0xC218]"
definition k_eopsneun :: jsstring where
  [lits]: "k_eopsneun = [0xC5C6, 0xB294]"
definition k_oryuga :: jsstring where
  [lits]: "k_oryuga = [0xC624, 0xB958, 0xAC00]"
definition k_balsaenghaessseupnida :: jsstring where
  [lits]: "k_balsaenghaessseupnida = [0xBC1C, 0xC0DD, 0xD588, 0xC2B5, 0xB2C8, 0xB2E4]"

text \<open>The two messages: "PDF text extraction failed." and "An unknown error occurred."\<close>

definition extraction_failed_message :: jsstring where
  "extraction_failed_message =
     ascii ''PDF '' @ k_tekseuteu @ ascii '' '' @ k_chuchule @ ascii '' ''
       @ k_silpaehaessseupnida @ ascii ''.''"

definition unknown_error_message :: jsstring where
  "unknown_error_message =
     k_al @ ascii '' '' @ k_su @ ascii '' '' @ k_eopsneun @ ascii '' '' @ k_oryuga
       @ ascii '' '' @ k_balsaenghaessseupnida @ ascii ''.''"

definition page_break :: jsstring where
  "page_break = [u_newline] @ ascii ''--- PAGE BREAK ---'' @ [u_newline]"

text \<open>
  \<^verbatim>\<open>decodeURIComponent\<close> (ECMAScript, Decode with an empty set of preserved characters);
  \<open>None\<close> is the \<^verbatim>\<open>URIError\<close>. A code unit other than the percent sign is copied. A
  percent sign must be followed by two hexadecimal digits, an octet. An octet below 128
  is the character itself. Otherwise the number \<open>n\<close> of leading one bits of the octet
  must be 2, 3 or 4, and \<open>n - 1\<close> more escaped octets must follow that together with the
  first are the UTF-8 encoding of a code point (not too long a form, no surrogate, at
  most 10FFFF), which is written in UTF-16.
\<close>

definition u_percent :: nat where "u_percent = 37"

definition hex_digit :: "nat \<Rightarrow> nat option" where
  "hex_digit x =
     (if 48 \<le> x \<and> x \<le> 57 then Some (x - 48)
      else if 65 \<le> x \<and> x \<le> 70 then Some (x - 55)
      else if 97 \<le> x \<and> x \<le> 102 then Some (x - 87)
      else None)"

definition hex_octet :: "nat \<Rightarrow> nat \<Rightarrow> nat option" where
  "hex_octet h l =
     (case hex_digit h of
        None \<Rightarrow> None
      | Some a \<Rightarrow> (case hex_digit l of None \<Rightarrow> None | Some b \<Rightarrow> Some (16 * a + b)))"

definition leading_ones :: "nat \<Rightarrow> nat" where
  "leading_ones b =
     (if b < 0x80 then 0 else if b < 0xC0 then 1 else if b < 0xE0 then 2 else if b < 0xF0 then 3
      else if b < 0xF8 then 4 else if b < 0xFC then 5 else if b < 0xFE then 6
      else if b < 0xFF then 7 else 8)"

fun continuation_octets :: "nat \<Rightarrow> jsstring \<Rightarrow> nat list option" where
  "continuation_octets 0 s = Some []"
| "continuation_octets (Suc j) (p # h # l # rest) =
     (if p = u_percent
      then (case hex_octet h l of
              None \<Rightarrow> None
            | Some b \<Rightarrow> map_option ((#) b) (continuation_octets j rest))
      else None)"
| "continuation_octets (Suc j) s = None"

definition is_continuation :: "nat \<Rightarrow> bool" where
  "is_continuation b \<longleftrightarrow> 0x80 \<le> b \<and> b < 0xC0"

definition scalar_value :: "nat \<Rightarrow> nat \<Rightarrow> nat option" where
  "scalar_value least v =
     (if least \<le> v \<and> v \<le> 0x10FFFF \<and> \<not> (0xD800 \<le> v \<and> v \<le> 0xDFFF) then Some v else None)"

definition utf8_code_point :: "nat list \<Rightarrow> nat option" where
  "utf8_code_point octets =
     (case octets of
        [b0, b1] \<Rightarrow>
          if is_continuation b1 then scalar_value 0x80 ((b0 - 0xC0) * 64 + (b1 - 0x80)) else None
      | [b0, b1, b2] \<Rightarrow>
          if is_continuation b1 \<and> is_continuation b2
          then scalar_value 0x800 ((b0 - 0xE0) * 4096 + (b1 - 0x80) * 64 + (b2 - 0x80)) else None
      | [b0, b1, b2, b3] \<Rightarrow>
          if is_continuation b1 \<and> is_continuation b2 \<and> is_continuation b3
          then scalar_value 0x10000
                 ((b0 - 0xF0) * 262144 + (b1 - 0x80) * 4096 + (b2 - 0x80) * 64 + (b3 - 0x80))
          else None
      | _ \<Rightarrow> None)"

definition utf16_encode :: "nat \<Rightarrow> jsstring" where
  "utf16_encode v =
     (if v < 0x10000 then [v]
      else [0xD800 + (v - 0x10000) div 1024, 0xDC00 + (v - 0x10000) mod 1024])"

function decodeURIComponent :: "jsstring \<Rightarrow> jsstring option" where
  "decodeURIComponent s =
     (case s of
        [] \<Rightarrow> Some []
      | c # s1 \<Rightarrow>
          if c \<noteq> u_percent then map_option ((#) c) (decodeURIComponent s1)
          else (case s1 of
                  h # l # rest \<Rightarrow>
                    (case hex_octet h l of
                       None \<Rightarrow> None
                     | Some b \<Rightarrow>
                         if leading_ones b = 0 then map_option ((#) b) (decodeURIComponent rest)
                         else if leading_ones b = 1 \<or> 4 < leading_ones b then None
                         else (case continuation_octets (leading_ones b - 1) rest of
                                 None \<Rightarrow> None
                               | Some octets \<Rightarrow>
                                   (case utf8_code_point (b # octets) of
                                      None \<Rightarrow> None
                                    | Some v \<Rightarrow>
                                        map_option ((@) (utf16_encode v))
                                          (decodeURIComponent (drop (3 * (leading_ones b - 1)) rest)))))
                | _ \<Rightarrow> None))"
  by pat_completeness auto
termination
  by (relation "measure length") auto

declare decodeURIComponent.simps [simp del]

text \<open>
  The text that the \<^verbatim>\<open>pdfParser_dataReady\<close> listener joins: every run decoded, a line
  break after every item, the page break after every page. \<open>None\<close>: one of the calls
  of \<^verbatim>\<open>decodeURIComponent\<close> throws, and with it the listener, before \<^verbatim>\<open>resolve\<close>.
\<close>

definition item_text :: "jsstring list \<Rightarrow> jsstring option" where
  "item_text item =
     map_option (\<lambda>runs. concat runs @ [u_newline]) (those (map decodeURIComponent item))"

definition page_text :: "jsstring list list \<Rightarrow> jsstring option" where
  "page_text page =
     map_option (\<lambda>items. concat items @ page_break) (those (map item_text page))"

definition pdf2json_text :: "jsstring list list list \<Rightarrow> jsstring option" where
  "pdf2json_text pages = map_option concat (those (map page_text pages))"

text \<open>
  The \<^verbatim>\<open>try\<close>/\<^verbatim>\<open>catch\<close> at the head of \<^verbatim>\<open>parseRegistryPDF\<close>. The \<^verbatim>\<open>catch\<close> is reached when
  the import fails or the promise is rejected, which the listener of
  \<^verbatim>\<open>pdfParser_dataError\<close> does. An exception of the listener of \<^verbatim>\<open>pdfParser_dataReady\<close>
  is thrown to the emitter of the event, not to the promise: the promise is neither
  resolved nor rejected, and \<^verbatim>\<open>await parsePromise\<close> never ends (\<open>Hangs\<close>).
\<close>

definition extract_text :: "pdf2json_result \<Rightarrow> pdfparse_result \<Rightarrow> jsstring outcome" where
  "extract_text r1 r2 =
     (case r1 of
        Pdf2jsonReady pages \<Rightarrow>
          (case pdf2json_text pages of None \<Rightarrow> Hangs | Some text \<Rightarrow> Returns text)
      | Pdf2jsonError \<Rightarrow>
          (case r2 of
             PdfParseText text \<Rightarrow> Returns text
           | PdfParseError \<Rightarrow> Throws (Error extraction_failed_message)))"

text \<open>\<open>now\<close> is \<^verbatim>\<open>new Date().toISOString()\<close>.\<close>

definition parseRegistryPDF ::
  "jsstring \<Rightarrow> pdf2json_result \<Rightarrow> pdfparse_result \<Rightarrow> RegistryData outcome" where
  "parseRegistryPDF now r1 r2 =
     (case extract_text r1 r2 of
        Throws e \<Rightarrow> Throws e
      | Hangs \<Rightarrow> Hangs
      | Returns text \<Rightarrow>
          (let uniqueNumber = extractUniqueNumber text;
               propertyType = detectPropertyType text;
               propertyAddress = extractAddress text;
               titleInfo = parseTitleSection text
           in case parseSectionAEntries text of
                None \<Rightarrow> Hangs
              | Some entriesA \<Rightarrow>
                  (case parseSectionBEntries text of
                     None \<Rightarrow> Hangs
                   | Some entriesB \<Rightarrow>
                       Returns \<lparr>RegistryData.uniqueNumber = uniqueNumber,
                                RegistryData.propertyType = propertyType,
                                RegistryData.propertyAddress = propertyAddress,
                                RegistryData.titleInfo = titleInfo,
                                RegistryData.sectionA = entriesA,
                                RegistryData.sectionB = entriesB,
                                rawText = text,
                                RegistryData.parseDate = now\<rparr>)))"

subsection \<open>Masking for the demo\<close>

text \<open>\<^verbatim>\<open>s.charAt(0)\<close> and \<^verbatim>\<open>s.slice(-1)\<close>\<close>

definition charAt0 :: "jsstring \<Rightarrow> jsstring" where
  "charAt0 s = take 1 s"

definition slice_last :: "jsstring \<Rightarrow> jsstring" where
  "slice_last s = drop (length s - 1) s"

definition mask_owner :: "OwnerInfo \<Rightarrow> OwnerInfo" where
  "mask_owner ow =
     ow\<lparr>OwnerInfo.name := charAt0 (OwnerInfo.name ow) @ ascii ''*'' @ slice_last (OwnerInfo.name ow),
        OwnerInfo.residentNumber :=
          (case OwnerInfo.residentNumber ow of
             None \<Rightarrow> None
           | Some r \<Rightarrow> if r \<noteq> [] then Some (ascii ''******-*******'') else None),
        OwnerInfo.address :=
          (case OwnerInfo.address ow of
             None \<Rightarrow> None
           | Some a \<Rightarrow> if a \<noteq> [] then Some (take 10 a @ ascii ''...'') else None)\<rparr>"

definition mask_sectionA_entry :: "SectionAEntry \<Rightarrow> SectionAEntry" where
  "mask_sectionA_entry entry =
     entry\<lparr>owners :=
       Some (map mask_owner (case owners entry of None \<Rightarrow> [] | Some os \<Rightarrow> os))\<rparr>"

definition mask_sectionB_entry :: "SectionBEntry \<Rightarrow> MaskedSectionBEntry" where
  "mask_sectionB_entry entry =
     \<lparr>MaskedSectionBEntry.rankNumber = SectionBEntry.rankNumber entry,
      MaskedSectionBEntry.registrationType = SectionBEntry.registrationType entry,
      MaskedSectionBEntry.receiptDate = SectionBEntry.receiptDate entry,
      MaskedSectionBEntry.maxClaimAmount = None,
      MaskedSectionBEntry.depositAmount = None,
      MaskedSectionBEntry.mortgagee = None,
      MaskedSectionBEntry.lessee = None,
      MaskedSectionBEntry.leaseTerm = None\<rparr>"

definition maskForDemo :: "RegistryData \<Rightarrow> PartialRegistryData" where
  "maskForDemo doc =
     \<lparr>PartialRegistryData.uniqueNumber = RegistryData.uniqueNumber doc,
      PartialRegistryData.propertyType = RegistryData.propertyType doc,
      PartialRegistryData.propertyAddress = RegistryData.propertyAddress doc,
      PartialRegistryData.titleInfo =
        (RegistryData.titleInfo doc)\<lparr>areas := take 1 (areas (RegistryData.titleInfo doc))\<rparr>,
      PartialRegistryData.sectionA = map mask_sectionA_entry (take 1 (RegistryData.sectionA doc)),
      PartialRegistryData.sectionB = map mask_sectionB_entry (take 1 (RegistryData.sectionB doc)),
      PartialRegistryData.parseDate = RegistryData.parseDate doc\<rparr>"

subsection \<open>The entry point\<close>

text \<open>
  What \<^verbatim>\<open>sendWebhook\<close> posts: the URL and the payload, without its time stamp and
  signature. \<^verbatim>\<open>sendWebhook\<close> catches every error of the post and its result is not
  used, so for \<^verbatim>\<open>parseAndProcessPDF\<close> it is only this effect.
\<close>

record WebhookPost =
  url :: jsstring
  event :: string
  requestId :: jsstring
  status :: string
  downloadUrl :: "jsstring option"
  summary :: "response_data option"
  error :: "string option"

definition sendWebhook ::
  "jsstring \<Rightarrow> jsstring \<Rightarrow> response_data option \<Rightarrow> bool \<Rightarrow> WebhookPost" where
  "sendWebhook webhookUrl request_id payload isSuccess =
     \<lparr>url = webhookUrl,
      event = (if isSuccess then ''parsing.completed'' else ''parsing.failed''),
      WebhookPost.requestId = request_id,
      status = (if isSuccess then ''success'' else ''failed''),
      downloadUrl = (if isSuccess then Some (ascii ''/api/download/'' @ request_id) else None),
      summary = (if isSuccess then payload else None),
      WebhookPost.error = (if isSuccess then None else Some ''Parsing failed'')\<rparr>"

text \<open>
  \<^verbatim>\<open>parseAndProcessPDF\<close>: \<open>request_id\<close> is \<^verbatim>\<open>uuidv4()\<close>. The result is what the promise
  settles to, with the list of webhook posts made on the way. \<^verbatim>\<open>if (webhookUrl)\<close> is
  false for \<^verbatim>\<open>undefined\<close> and for the empty string.
\<close>

definition webhook_posts :: "jsstring option \<Rightarrow> (jsstring \<Rightarrow> WebhookPost) \<Rightarrow> WebhookPost list" where
  "webhook_posts webhookUrl post =
     (case webhookUrl of None \<Rightarrow> [] | Some u \<Rightarrow> if u \<noteq> [] then [post u] else [])"

definition parseAndProcessPDF ::
  "jsstring \<Rightarrow> jsstring \<Rightarrow> pdf2json_result \<Rightarrow> pdfparse_result \<Rightarrow> bool \<Rightarrow> jsstring option
     \<Rightarrow> ParseResponse outcome \<times> WebhookPost list" where
  "parseAndProcessPDF request_id now r1 r2 isPaid webhookUrl =
     (case parseRegistryPDF now r1 r2 of
        Returns fullData \<Rightarrow>
          (let response = \<lparr>success = True,
                            data = (if isPaid then Some (Full fullData) else None),
                            ParseResponse.error = None,
                            ParseResponse.requestId = request_id,
                            isDemo = (\<not> isPaid)\<rparr>
           in (Returns (if isPaid then response
                        else response\<lparr>data := Some (Masked (maskForDemo fullData))\<rparr>),
               webhook_posts webhookUrl
                 (\<lambda>u. sendWebhook u request_id
                         (Some (if isPaid then Full fullData else Masked (maskForDemo fullData)))
                         True)))
      | Throws e \<Rightarrow>
          (Returns \<lparr>success = False,
                    data = None,
                    ParseResponse.error =
                      Some (case e of Error message \<Rightarrow> message | NotAnError \<Rightarrow> unknown_error_message),
                    ParseResponse.requestId = request_id,
                    isDemo = (\<not> isPaid)\<rparr>,
           webhook_posts webhookUrl (\<lambda>u. sendWebhook u request_id None False))
      | Hangs \<Rightarrow> (Hangs, []))"

section \<open>Definitions for the proofs\<close>

text \<open>
  \<open>bind_results xs F\<close> continues every result of \<open>xs\<close> with \<open>F\<close>, in order: what \<open>Seq\<close>
  does with the results of its first part.
\<close>

definition bind_results ::
  "(jsstring \<times> caps) list \<Rightarrow> (jsstring \<Rightarrow> caps \<Rightarrow> (jsstring \<times> caps) list) \<Rightarrow> (jsstring \<times> caps) list" where
  "bind_results xs F = concat (map (\<lambda>(s', c'). F s' c') xs)"

text \<open>
  The words of the specification for an amount: \<open>s\<close> begins with the character geum,
  white space, \<open>N\<close> (digits and commas, not empty), white space and the character won,
  and \<open>post\<close> follows. \<open>amount_at s\<close>: \<open>s\<close> begins with such an amount.
\<close>

definition amount_form :: "jsstring \<Rightarrow> jsstring \<Rightarrow> jsstring \<Rightarrow> bool" where
  "amount_form s N post \<longleftrightarrow>
     (\<exists>sp1 sp2. s = k_geum @ sp1 @ N @ sp2 @ k_won @ post
        \<and> (\<forall>x \<in> set sp1. is_space x) \<and> (\<forall>x \<in> set sp2. is_space x)
        \<and> N \<noteq> [] \<and> (\<forall>x \<in> set N. is_digit x \<or> x = u_comma))"

definition amount_at :: "jsstring \<Rightarrow> bool" where
  "amount_at s \<longleftrightarrow> (\<exists>N post. amount_form s N post)"

text \<open>The same, computed from left to right.\<close>

definition amount_char :: "nat \<Rightarrow> bool" where
  "amount_char x = in_classes [CDigit, CChar u_comma] x"

definition amount_scan :: "jsstring \<Rightarrow> (jsstring \<times> jsstring) option" where
  "amount_scan s =
     (case s of
        [] \<Rightarrow> None
      | g # r \<Rightarrow>
          if [g] \<noteq> k_geum then None
          else let r1 = dropWhile is_space r;
                   N = takeWhile amount_char r1;
                   r2 = dropWhile is_space (dropWhile amount_char r1)
               in if N = [] then None
                  else (case r2 of
                          [] \<Rightarrow> None
                        | w # post \<Rightarrow> if [w] = k_won then Some (N, post) else None))"

text \<open>
  \<open>consumes r\<close>: every match of \<open>r\<close> takes at least one character (decided on the shape
  of \<open>r\<close>). \<open>sets_group k r\<close>: every match of \<open>r\<close> passes through capture group \<open>k\<close>.
\<close>

fun consumes :: "regex \<Rightarrow> bool" where
  "consumes (Lit w) = (w \<noteq> [])"
| "consumes (OneOf cs) = True"
| "consumes (NoneOf cs) = True"
| "consumes (Seq a b) = (consumes a \<or> consumes b)"
| "consumes (Alt a b) = (consumes a \<and> consumes b)"
| "consumes (Star a) = False"
| "consumes (LazyStar a) = False"
| "consumes (Group k a) = consumes a"
| "consumes (Ahead a) = False"
| "consumes End = False"

fun sets_group :: "nat \<Rightarrow> regex \<Rightarrow> bool" where
  "sets_group k (Seq a b) = (sets_group k a \<or> sets_group k b)"
| "sets_group k (Alt a b) = (sets_group k a \<and> sets_group k b)"
| "sets_group k (Group j a) = (j = k \<or> sets_group k a)"
| "sets_group k (Ahead a) = sets_group k a"
| "sets_group k r = False"

text \<open>The heading of a land register, "[toji]" (land), for an example.\<close>

definition k_toji :: jsstring where
  [lits]: "k_toji = [0xD1A0, 0xC9C0]"

text \<open>
  Example inputs. A section A with one row, "1 soyugwonbojon" (preservation of ownership),
  owner Hong Gil-dong, resident number 800101-*******, address Seoul; and one with two
  rows, "1 gaapryu" (provisional seizure) with a claimed amount of 1,000 won and the
  creditor Kim, and "2 apryu" (seizure).
\<close>

definition example_owner_text :: jsstring where
  "example_owner_text =
     k_lbr @ k_gap @ k_gu @ k_rbr @ [u_newline]
       @ ascii ''1 '' @ k_soyugwonbojon @ [u_newline]
       @ k_soyuja @ ascii '' '' @ [0xD64D, 0xAE38, 0xB3D9] @ ascii '' 800101-*******'' @ [u_newline]
       @ [0xC11C, 0xC6B8] @ [u_newline]"

definition example_attachment_text :: jsstring where
  "example_attachment_text =
     k_lbr @ k_gap @ k_gu @ k_rbr @ [u_newline]
       @ ascii ''1 '' @ k_gaapryu @ ascii '' '' @ k_cheonggugeumaek @ ascii '' '' @ k_geum
       @ ascii ''1,000'' @ k_won @ [u_newline]
       @ k_chaegwonja @ ascii '' Kim Seoul'' @ [u_newline]
       @ ascii ''2 '' @ k_apryu @ [u_newline]"

text \<open>\<open>mentions_group k r\<close>: capture group \<open>k\<close> occurs in \<open>r\<close>.\<close>

fun mentions_group :: "nat \<Rightarrow> regex \<Rightarrow> bool" where
  "mentions_group k (Seq a b) = (mentions_group k a \<or> mentions_group k b)"
| "mentions_group k (Alt a b) = (mentions_group k a \<or> mentions_group k b)"
| "mentions_group k (Star a) = mentions_group k a"
| "mentions_group k (LazyStar a) = mentions_group k a"
| "mentions_group k (Group j a) = (j = k \<or> mentions_group k a)"
| "mentions_group k (Ahead a) = mentions_group k a"
| "mentions_group k r = False"

text \<open>
  The shape that \<^verbatim>\<open>rowPattern\<close> of section A and of section B share: rank number, white
  space, one of the keywords, anything (as little as possible) up to the end of the row.
\<close>

definition row_pattern :: "jsstring list \<Rightarrow> regex \<Rightarrow> regex" where
  "row_pattern kws row_end =
     seqs [Group 1 rank_re, ws1, Group 2 (alts (map Lit kws)), LazyStar any_char, Ahead row_end]"



definition example_duplicate_text :: jsstring where
  "example_duplicate_text =
     k_lbr @ k_gap @ k_gu @ k_rbr @ [u_newline]
       @ ascii ''1 '' @ k_soyugwonbojon @ [u_newline]
       @ ascii ''1 '' @ k_soyugwonijeon @ [u_newline]"



text \<open>The rank numbers: digits, or digits, a hyphen and digits.\<close>

definition rank_form :: "jsstring \<Rightarrow> bool" where
  "rank_form r \<longleftrightarrow>
     (\<exists>d1. d1 \<noteq> [] \<and> (\<forall>x \<in> set d1. is_digit x)
        \<and> (r = d1 \<or> (\<exists>d2. d2 \<noteq> [] \<and> (\<forall>x \<in> set d2. is_digit x) \<and> r = d1 @ [u_hyphen] @ d2)))"






text \<open>
  An unknown registration type with a keyword further on in the same line: the one row
  "2 sintak 3 apryu x" of section A.
\<close>

definition example_inner_keyword_text :: jsstring where
  "example_inner_keyword_text =
     k_lbr @ k_gap @ k_gu @ k_rbr @ [u_newline]
       @ ascii ''2 '' @ k_sintak @ ascii '' 3 '' @ k_apryu @ ascii '' x'' @ [u_newline]"



section \<open>Properties of the matcher\<close>

declare run.simps(6,7) [simp del]

lemma run_Star_iff:
  "(s', c') \<in> set (run (Star a) s c) \<longleftrightarrow>
     (s', c') = (s, c) \<or>
     (\<exists>s1 c1. (s1, c1) \<in> set (run a s c) \<and> length s1 < length s
        \<and> (s', c') \<in> set (run (Star a) s1 c1))"
  by (subst run.simps) (auto split: if_splits)

lemma run_LazyStar_iff:
  "(s', c') \<in> set (run (LazyStar a) s c) \<longleftrightarrow>
     (s', c') = (s, c) \<or>
     (\<exists>s1 c1. (s1, c1) \<in> set (run a s c) \<and> length s1 < length s
        \<and> (s', c') \<in> set (run (LazyStar a) s1 c1))"
  by (subst run.simps) (auto split: if_splits)

lemma run_Seq_iff:
  "(s', c') \<in> set (run (Seq a b) s c) \<longleftrightarrow>
     (\<exists>s1 c1. (s1, c1) \<in> set (run a s c) \<and> (s', c') \<in> set (run b s1 c1))"
  by auto

lemma run_suffix: "(s', c') \<in> set (run r s c) \<Longrightarrow> \<exists>p. s = p @ s'"
proof (induction r s c arbitrary: s' c' rule: run.induct)
  case (1 w s c)
  then show ?case by (auto split: if_splits) (metis append_take_drop_id)
next
  case (2 cs s c)
  then show ?case by (auto split: list.splits if_splits)
next
  case (3 cs s c)
  then show ?case by (auto split: list.splits if_splits)
next
  case (4 a b s c)
  from 4(3) obtain s1 c1 where a: "(s1, c1) \<in> set (run a s c)" and b: "(s', c') \<in> set (run b s1 c1)"
    unfolding run_Seq_iff by blast
  from 4(1)[OF a] obtain p where p: "s = p @ s1" by blast
  from 4(2)[OF a refl b] obtain q where "s1 = q @ s'" by blast
  with p show ?case by simp
next
  case (5 a b s c)
  then show ?case by auto
next
  case (6 a s c)
  from 6(3) consider "(s', c') = (s, c)"
    | s1 c1 where "(s1, c1) \<in> set (run a s c)" "length s1 < length s" "(s', c') \<in> set (run (Star a) s1 c1)"
    by (subst (asm) run_Star_iff) blast
  then show ?case
  proof cases
    case 1
    then show ?thesis by simp
  next
    case 2
    from 6(1)[OF 2(1)] obtain p where p: "s = p @ s1" by blast
    from 6(2)[OF 2(1) refl 2(2) 2(3)] obtain q where "s1 = q @ s'" by blast
    with p show ?thesis by simp
  qed
next
  case (7 a s c)
  from 7(3) consider "(s', c') = (s, c)"
    | s1 c1 where "(s1, c1) \<in> set (run a s c)" "length s1 < length s" "(s', c') \<in> set (run (LazyStar a) s1 c1)"
    by (subst (asm) run_LazyStar_iff) blast
  then show ?case
  proof cases
    case 1
    then show ?thesis by simp
  next
    case 2
    from 7(1)[OF 2(1)] obtain p where p: "s = p @ s1" by blast
    from 7(2)[OF 2(1) refl 2(2) 2(3)] obtain q where "s1 = q @ s'" by blast
    with p show ?thesis by simp
  qed
next
  case (8 k a s c)
  then show ?case by auto
next
  case (9 a s c)
  then show ?case by (auto split: list.splits)
next
  case (10 s c)
  then show ?case by (auto split: if_splits)
qed

lemma bind_results_simps [simp]:
  "bind_results [] F = []"
  "bind_results (x # xs) F = F (fst x) (snd x) @ bind_results xs F"
  "bind_results (xs @ ys) F = bind_results xs F @ bind_results ys F"
  by (simp_all add: bind_results_def split_beta)

lemma bind_results_return [simp]: "bind_results xs (\<lambda>s c. [(s, c)]) = xs"
  by (induction xs) auto

lemma bind_results_assoc:
  "bind_results (bind_results xs F) G = bind_results xs (\<lambda>s c. bind_results (F s c) G)"
  by (induction xs) auto

lemma bind_results_map:
  "bind_results (map f xs) F = bind_results xs (\<lambda>s c. F (fst (f (s, c))) (snd (f (s, c))))"
  by (induction xs) auto

lemma run_Seq_bind: "run (Seq a b) s c = bind_results (run a s c) (run b)"
  by (simp add: bind_results_def)

lemma bind_Seq:
  "bind_results (run (Seq a b) s c) F = bind_results (run a s c) (\<lambda>s1 c1. bind_results (run b s1 c1) F)"
  by (simp only: run_Seq_bind bind_results_assoc)



lemma bind_OneOf:
  "bind_results (run (OneOf cs) s c) F =
     (case s of [] \<Rightarrow> [] | x # xs \<Rightarrow> if in_classes cs x then F xs c else [])"
  by (simp split: list.splits)

lemma bind_NoneOf:
  "bind_results (run (NoneOf cs) s c) F =
     (case s of [] \<Rightarrow> [] | x # xs \<Rightarrow> if in_classes cs x then [] else F xs c)"
  by (simp split: list.splits)

lemma bind_Group:
  "bind_results (run (Group k a) s c) F =
     bind_results (run a s c) (\<lambda>s' c'. F s' (c'(k := Some (take (length s - length s') s))))"
  by (simp add: bind_results_map split_beta)

lemma bind_Ahead:
  "bind_results (run (Ahead a) s c) F = (case run a s c of [] \<Rightarrow> [] | (s', c') # _ \<Rightarrow> F s c')"
  by (simp split: list.splits)

lemma bind_End:
  "bind_results (run End s c) F = (if s = [] then F s c else [])"
  by simp

text \<open>A greedy star over a character class gives nothing back to a continuation that cannot start with a character of the class.\<close>

lemma run_Star_class:
  "run (Star (OneOf cs)) s c =
     (case s of [] \<Rightarrow> [(s, c)]
      | x # xs \<Rightarrow> if in_classes cs x then run (Star (OneOf cs)) xs c @ [(s, c)] else [(s, c)])"
  by (subst run.simps) (simp split: list.splits)

lemma bind_Star_class:
  assumes "\<And>x xs c. in_classes cs x \<Longrightarrow> F (x # xs) c = []"
  shows "bind_results (run (Star (OneOf cs)) s c) F = F (dropWhile (in_classes cs) s) c"
proof (induction s)
  case Nil
  show ?case by (subst run_Star_class) simp
next
  case (Cons x xs)
  show ?case using Cons assms by (subst run_Star_class) simp
qed

lemma bind_plus_class:
  assumes "\<And>x xs c. in_classes cs x \<Longrightarrow> F (x # xs) c = []"
  shows "bind_results (run (plus (OneOf cs)) s c) F =
     (case s of [] \<Rightarrow> [] | x # xs \<Rightarrow> if in_classes cs x then F (dropWhile (in_classes cs) xs) c else [])"
  unfolding plus_def bind_Seq bind_OneOf using bind_Star_class[of cs F, OF assms]
  by (simp split: list.splits)

declare run.simps [simp del]

section \<open>Amounts: the claim on \<^verbatim>\<open>parseAmount\<close>\<close>


lemma in_classes_space [simp]: "in_classes [CSpace] = is_space"
  by (rule ext) simp

lemma amount_char_iff: "amount_char x \<longleftrightarrow> is_digit x \<or> x = u_comma"
  by (simp add: amount_char_def)

lemma amount_char_not_space: "amount_char x \<Longrightarrow> \<not> is_space x"
  by (auto simp: amount_char_iff is_digit_def is_space_def u_comma_def)

lemma won_not_space: "\<not> is_space 0xC6D0" "\<not> amount_char 0xC6D0"
  by (simp_all add: is_space_def amount_char_iff is_digit_def u_comma_def)

lemma run_Lit_Cons:
  "run (Lit (a # w)) s c = (case s of [] \<Rightarrow> [] | x # xs \<Rightarrow> if x = a then run (Lit w) xs c else [])"
  by (auto simp: run.simps split: list.splits)

lemma run_Lit_Nil [simp]: "run (Lit []) s c = [(s, c)]"
  by (simp add: run.simps)

lemma run_won: "run (Lit k_won) s c = (case s of [] \<Rightarrow> [] | x # xs \<Rightarrow> if x = 0xC6D0 then [(xs, c)] else [])"
  by (simp add: k_won_def run_Lit_Cons split: list.splits)

lemma run_geum: "run (Lit k_geum) s c = (case s of [] \<Rightarrow> [] | x # xs \<Rightarrow> if x = 0xAE08 then [(xs, c)] else [])"
  by (simp add: k_geum_def run_Lit_Cons split: list.splits)

lemma lit_eqs: "[x] = k_geum \<longleftrightarrow> x = 0xAE08" "[x] = k_won \<longleftrightarrow> x = 0xC6D0"
  by (auto simp: k_geum_def k_won_def)

lemma run_ws_won:
  "bind_results (run ws s c) (run (Lit k_won)) = run (Lit k_won) (dropWhile is_space s) c"
  unfolding ws_def
  by (subst bind_Star_class) (auto simp: run_won won_not_space)

lemma take_length_takeWhile [simp]: "take (length (takeWhile P xs)) xs = takeWhile P xs"
  by (induction xs) auto

lemma run_amount_tail:
  "bind_results (run (Group 1 (plus (OneOf [CDigit, CChar u_comma]))) s c)
       (\<lambda>s3 c3. bind_results (run ws s3 c3) (run (Lit k_won))) =
     (case s of [] \<Rightarrow> []
      | x # xs \<Rightarrow> if amount_char x
          then run (Lit k_won) (dropWhile is_space (dropWhile amount_char xs))
                 (c(1 := Some (x # takeWhile amount_char xs)))
          else [])"
proof -
  have len: "Suc (length xs) - length (dropWhile amount_char xs) = Suc (length (takeWhile amount_char xs))" for xs
    by (metis Suc_diff_le add_diff_cancel_right' length_append length_dropWhile_le takeWhile_dropWhile_id)
  have ac: "in_classes [CDigit, CChar u_comma] = amount_char"
    by (rule ext) (simp add: amount_char_def)
  show ?thesis
    unfolding bind_Group run_ws_won
    apply (subst bind_plus_class)
     apply (auto simp: ac run_won won_not_space dest: amount_char_not_space)[1]
    apply (simp split: list.splits add: ac len)
    done
qed

lemma run_amount_re:
  "run amount_re s c =
     (case amount_scan s of None \<Rightarrow> [] | Some (N, post) \<Rightarrow> [(post, c(1 := Some N))])"
proof -
  have "run amount_re s c = bind_results (run amount_re s c) (\<lambda>s c. [(s, c)])"
    by simp
  also have "\<dots> = bind_results (run (Lit k_geum) s c) (\<lambda>s1 c1. bind_results (run ws s1 c1)
      (\<lambda>s2 c2. bind_results (run (Group 1 (plus (OneOf [CDigit, CChar u_comma]))) s2 c2)
         (\<lambda>s3 c3. bind_results (run ws s3 c3) (run (Lit k_won)))))"
    unfolding amount_re_def seqs.simps bind_Seq by simp
  finally have *: "run amount_re s c = bind_results (run (Lit k_geum) s c) (\<lambda>s1 c1. bind_results (run ws s1 c1)
      (\<lambda>s2 c2. bind_results (run (Group 1 (plus (OneOf [CDigit, CChar u_comma]))) s2 c2)
         (\<lambda>s3 c3. bind_results (run ws s3 c3) (run (Lit k_won)))))" .
  define T where "T = (\<lambda>s (c :: caps). case s of [] \<Rightarrow> []
      | x # xs \<Rightarrow> if amount_char x
          then run (Lit k_won) (dropWhile is_space (dropWhile amount_char xs))
                 (c(1 := Some (x # takeWhile amount_char xs)))
          else [])"
  have T_fail: "T (x # xs) c' = []" if "in_classes [CSpace] x" for x xs c'
    using that amount_char_not_space[of x] by (auto simp: T_def)
  have "run amount_re s c = bind_results (run (Lit k_geum) s c) (\<lambda>s1 c1. bind_results (run ws s1 c1) T)"
    unfolding * run_amount_tail T_def ..
  also have "\<dots> = bind_results (run (Lit k_geum) s c) (\<lambda>s1 c1. T (dropWhile is_space s1) c1)"
    unfolding ws_def using bind_Star_class[of "[CSpace]" T, OF T_fail] by simp
  also have "\<dots> = (case amount_scan s of None \<Rightarrow> [] | Some (N, post) \<Rightarrow> [(post, c(1 := Some N))])"
  proof (cases s)
    case Nil
    then show ?thesis by (simp add: run_geum amount_scan_def)
  next
    case (Cons g r)
    show ?thesis
    proof (cases "dropWhile is_space r")
      case Nil
      with Cons show ?thesis
        by (simp add: run_geum amount_scan_def T_def lit_eqs Let_def del: dropWhile_eq_Nil_conv)
    next
      case r1: (Cons x xs)
      show ?thesis
      proof (cases "amount_char x")
        case True
        with Cons r1 show ?thesis
          by (simp add: run_geum amount_scan_def T_def lit_eqs run_won Let_def
              split: list.splits del: dropWhile_eq_Nil_conv)
      next
        case False
        with Cons r1 show ?thesis
          by (simp add: run_geum amount_scan_def T_def lit_eqs Let_def del: dropWhile_eq_Nil_conv)
      qed
    qed
  qed
  finally show ?thesis .
qed

lemma dropWhile_all_then:
  "(\<forall>x \<in> set a. P x) \<Longrightarrow> b = [] \<or> \<not> P (hd b) \<Longrightarrow> dropWhile P (a @ b) = b"
  by (induction a) (cases b; auto)+

lemma takeWhile_all_then:
  "(\<forall>x \<in> set a. P x) \<Longrightarrow> b = [] \<or> \<not> P (hd b) \<Longrightarrow> takeWhile P (a @ b) = a"
  by (induction a) (cases b; auto)+

lemma amount_form_scan: "amount_form s N post \<longleftrightarrow> amount_scan s = Some (N, post)"
proof
  assume "amount_form s N post"
  then obtain sp1 sp2 where s: "s = k_geum @ sp1 @ N @ sp2 @ k_won @ post"
    and sp1: "\<forall>x \<in> set sp1. is_space x" and sp2: "\<forall>x \<in> set sp2. is_space x"
    and N: "N \<noteq> []" "\<forall>x \<in> set N. amount_char x"
    unfolding amount_form_def amount_char_iff by blast
  have s': "s = 0xAE08 # sp1 @ N @ sp2 @ 0xC6D0 # post"
    using s by (simp add: k_geum_def k_won_def)
  have hdN: "\<not> is_space (hd N)" using N amount_char_not_space by (cases N) auto
  have r1: "dropWhile is_space (sp1 @ N @ sp2 @ 0xC6D0 # post) = N @ sp2 @ 0xC6D0 # post"
    using sp1 N hdN by (intro dropWhile_all_then) auto
  have hd2: "\<not> amount_char (hd (sp2 @ 0xC6D0 # post))"
    using sp2 won_not_space amount_char_not_space by (cases sp2) auto
  have tw: "takeWhile amount_char (N @ sp2 @ 0xC6D0 # post) = N"
    using N hd2 by (intro takeWhile_all_then) auto
  have dw: "dropWhile amount_char (N @ sp2 @ 0xC6D0 # post) = sp2 @ 0xC6D0 # post"
    using N hd2 by (intro dropWhile_all_then) auto
  have r2: "dropWhile is_space (sp2 @ 0xC6D0 # post) = 0xC6D0 # post"
    using sp2 won_not_space by (intro dropWhile_all_then) auto
  show "amount_scan s = Some (N, post)"
    using N by (simp add: amount_scan_def s' lit_eqs r1 tw dw r2 Let_def)
next
  assume a: "amount_scan s = Some (N, post)"
  then obtain r where s: "s = 0xAE08 # r"
    by (auto simp: amount_scan_def lit_eqs split: list.splits if_splits)
  define r1 where "r1 = dropWhile is_space r"
  from a s have N: "N = takeWhile amount_char r1" "N \<noteq> []"
    and r2: "dropWhile is_space (dropWhile amount_char r1) = 0xC6D0 # post"
    by (auto simp: amount_scan_def lit_eqs Let_def r1_def split: list.splits if_splits)
  have "s = k_geum @ takeWhile is_space r @ N @ takeWhile is_space (dropWhile amount_char r1) @ k_won @ post"
    using r2 unfolding s N k_geum_def k_won_def r1_def
    by (metis append_Cons append_Nil takeWhile_dropWhile_id)
  moreover have "\<forall>x \<in> set (takeWhile is_space r). is_space x"
    by (auto dest: set_takeWhileD)
  moreover have "\<forall>x \<in> set (takeWhile is_space (dropWhile amount_char r1)). is_space x"
    by (auto dest: set_takeWhileD)
  moreover have "\<forall>x \<in> set N. is_digit x \<or> x = u_comma"
    unfolding N using amount_char_iff by (auto dest: set_takeWhileD)
  ultimately show "amount_form s N post"
    unfolding amount_form_def using N(2) by blast
qed

lemma amount_at_run: "amount_at s \<longleftrightarrow> run amount_re s c \<noteq> []"
  by (auto simp: amount_at_def amount_form_scan run_amount_re split: option.splits)

lemma amount_form_run:
  "amount_form s N post \<Longrightarrow> run amount_re s c = [(post, c(1 := Some N))]"
  by (simp add: amount_form_scan run_amount_re)

text \<open>Searching.\<close>

lemma search_skip: "run r (x # xs) no_caps = [] \<Longrightarrow> search r (x # xs) = search r xs"
  by simp

lemma search_prefix_fail:
  "(\<forall>i < length pre. run r (drop i (pre @ s)) no_caps = []) \<Longrightarrow> search r (pre @ s) = search r s"
proof (induction pre)
  case Nil
  show ?case by simp
next
  case (Cons x pre)
  from Cons.prems have 0: "run r (x # pre @ s) no_caps = []" by force
  have "\<forall>i < length pre. run r (drop i (pre @ s)) no_caps = []"
  proof (intro allI impI)
    fix i assume "i < length pre"
    then have "Suc i < length (x # pre)" by simp
    from Cons.prems[rule_format, OF this] show "run r (drop i (pre @ s)) no_caps = []" by simp
  qed
  from Cons.IH[OF this] 0 show ?case by simp
qed

lemma search_hit:
  "run r s no_caps = (s', c') # others \<Longrightarrow> search r s = Some (take (length s - length s') s, c', s')"
  by (cases s) auto

lemma search_none:
  "(\<forall>i \<le> length s. run r (drop i s) no_caps = []) \<Longrightarrow> search r s = None"
proof (induction s)
  case Nil
  then show ?case by simp
next
  case (Cons x xs)
  from Cons.prems have 0: "run r (x # xs) no_caps = []" by force
  have "\<forall>i \<le> length xs. run r (drop i xs) no_caps = []"
  proof (intro allI impI)
    fix i assume "i \<le> length xs"
    then have "Suc i \<le> length (x # xs)" by simp
    from Cons.prems[rule_format, OF this] show "run r (drop i xs) no_caps = []" by simp
  qed
  from Cons.IH[OF this] 0 show ?case by simp
qed

lemma digit_not_space: "is_digit x \<Longrightarrow> \<not> is_space x"
  by (auto simp: is_digit_def is_space_def)

lemma parseInt_digits:
  assumes "ds \<noteq> []" "\<forall>d \<in> set ds. is_digit d" "digits_value ds 0 < 2 ^ 53"
  shows "parseInt ds = Num (int (digits_value ds 0))"
proof -
  from assms obtain x xs where ds: "ds = x # xs" and x: "is_digit x" by (cases ds) auto
  have 1: "dropWhile is_space ds = ds" using x digit_not_space by (simp add: ds)
  have 2: "x \<noteq> u_hyphen" "x \<noteq> 43" using x by (auto simp: is_digit_def u_hyphen_def)
  have 3: "takeWhile is_digit ds = ds" using assms(2) by (simp add: takeWhile_eq_all_conv)
  show ?thesis
    unfolding parseInt_def 1 using 2 3 assms(1,3)
    by (simp add: ds Let_def round_double_def)
qed

lemma remove_commas_digits:
  "\<forall>x \<in> set N. is_digit x \<or> x = u_comma \<Longrightarrow> \<forall>d \<in> set (remove_commas N). is_digit d"
  by (auto simp: remove_commas_def)

lemma remove_commas_nonempty:
  "\<exists>d \<in> set N. is_digit d \<Longrightarrow> remove_commas N \<noteq> []"
  by (force simp: remove_commas_def filter_empty_conv is_digit_def u_comma_def)

text \<open>
  C7 (as amended). The parser reads the leftmost substring of the form geum N won (white
  space allowed on both sides of N, N a non-empty run of digits and commas) and returns
  \<^verbatim>\<open>parseInt\<close> of N without its commas; when N has a digit and its value is below \<open>2^53\<close>
  that is exactly the integer whose decimal digits are N with the commas removed. A text
  with no substring of that form yields no amount.
\<close>

theorem parseAmount_leftmost_amount:
  "(amount_form s N post \<and> (\<forall>i < length pre. \<not> amount_at (drop i (pre @ s)))
      \<longrightarrow> parseAmount (pre @ s) = Some (parseInt (remove_commas N))
          \<and> ((\<exists>d \<in> set N. is_digit d) \<and> digits_value (remove_commas N) 0 < 2 ^ 53
               \<longrightarrow> parseInt (remove_commas N) = Num (int (digits_value (remove_commas N) 0))))
   \<and> ((\<forall>i \<le> length text. \<not> amount_at (drop i text)) \<longrightarrow> parseAmount text = None)"
proof (intro conjI impI)
  assume a: "amount_form s N post \<and> (\<forall>i < length pre. \<not> amount_at (drop i (pre @ s)))"
  then have form: "amount_form s N post" by blast
  from a have "\<forall>i < length pre. run amount_re (drop i (pre @ s)) no_caps = []"
    using amount_at_run by blast
  then have "search amount_re (pre @ s) = search amount_re s"
    by (rule search_prefix_fail)
  also have "\<dots> = Some (take (length s - length post) s, no_caps(1 := Some N), post)"
    using amount_form_run[OF form] by (intro search_hit) simp
  finally have "js_match (pre @ s) amount_re = Some ((no_caps(1 := Some N))(0 := Some (take (length s - length post) s)))"
    by (simp add: js_match_def)
  moreover have "s \<noteq> []" using form by (auto simp: amount_form_def k_geum_def)
  ultimately show "parseAmount (pre @ s) = Some (parseInt (remove_commas N))"
    by (simp add: parseAmount_def grp_def)
next
  assume a: "amount_form s N post \<and> (\<forall>i < length pre. \<not> amount_at (drop i (pre @ s)))"
    and b: "(\<exists>d \<in> set N. is_digit d) \<and> digits_value (remove_commas N) 0 < 2 ^ 53"
  from a have "\<forall>x \<in> set N. is_digit x \<or> x = u_comma" by (auto simp: amount_form_def)
  with b show "parseInt (remove_commas N) = Num (int (digits_value (remove_commas N) 0))"
    by (intro parseInt_digits remove_commas_digits remove_commas_nonempty) auto
next
  assume "\<forall>i \<le> length text. \<not> amount_at (drop i text)"
  then have "\<forall>i \<le> length text. run amount_re (drop i text) no_caps = []"
    using amount_at_run by blast
  then have "search amount_re text = None" by (rule search_none)
  then show "parseAmount text = None" by (simp add: parseAmount_def js_match_def)
qed

text \<open>The equations that evaluate the parser on a concrete text.\<close>

lemmas ev = parseAmount_def js_match_def grp_def remove_commas_def parseInt_def round_double_def
  is_digit_def is_space_def ascii_def no_caps_def plus_def opt_def lazy_plus_def
  u_comma_def u_newline_def u_hyphen_def u_period_def run.simps

text \<open>
  The theorem at the text "cheonggugeumaek geum 1,000won." (claimed amount: 1,000 won), whose
  first geum, inside the word cheonggugeumaek, starts no amount; and at a text without
  any amount.
\<close>

theorem parseAmount_leftmost_amount_witness:
  "parseAmount (k_cheonggugeumaek @ ascii '' '' @ k_geum @ ascii '' 1,000'' @ k_won @ ascii ''.'')
     = Some (Num 1000)
   \<and> parseAmount k_cheonggugeumaek = None"
proof -
  let ?pre = "k_cheonggugeumaek @ ascii '' ''"
  let ?s = "k_geum @ ascii '' 1,000'' @ k_won @ ascii ''.''"
  have form: "amount_form ?s (ascii ''1,000'') (ascii ''.'')"
    by (simp add: amount_form_scan amount_scan_def amount_char_def lits ascii_def is_space_def
        is_digit_def u_comma_def)
  have pre: "\<forall>i < length ?pre. \<not> amount_at (drop i (?pre @ ?s))"
    by (simp add: amount_at_run[of _ no_caps] run_amount_re amount_scan_def amount_char_def lits
        ascii_def is_space_def is_digit_def u_comma_def All_less_Suc drop_Cons')
  have none: "\<forall>i \<le> length k_cheonggugeumaek. \<not> amount_at (drop i k_cheonggugeumaek)"
    by (simp add: amount_at_run[of _ no_caps] run_amount_re amount_scan_def amount_char_def lits
        ascii_def is_space_def is_digit_def u_comma_def All_less_Suc le_Suc_eq drop_Cons' all_conj_distrib)
  have val: "(\<exists>d \<in> set (ascii ''1,000''). is_digit d) \<and> digits_value (remove_commas (ascii ''1,000'')) 0 < 2 ^ 53"
    by (simp add: ascii_def is_digit_def remove_commas_def u_comma_def)
  have "digits_value (remove_commas (ascii ''1,000'')) 0 = 1000"
    by (simp add: ascii_def remove_commas_def u_comma_def)
  with parseAmount_leftmost_amount[of ?s "ascii ''1,000''" "ascii ''.''" ?pre k_cheonggugeumaek]
    form pre none val
  show ?thesis by simp
qed

text \<open>
  C7 as stated fails: for "geum,won" the parser returns \<^verbatim>\<open>NaN\<close> although the text has no
  amount with a digit, and the digits 9007199254740993 are read as 9007199254740992.
\<close>

theorem parseAmount_counterexample:
  "parseAmount (k_geum @ ascii '','' @ k_won) = Some NaN
   \<and> \<not> (\<exists>i N post. amount_form (drop i (k_geum @ ascii '','' @ k_won)) N post \<and> (\<exists>d \<in> set N. is_digit d))
   \<and> amount_form (k_geum @ ascii ''9007199254740993'' @ k_won) (ascii ''9007199254740993'') []
   \<and> parseAmount (k_geum @ ascii ''9007199254740993'' @ k_won) = Some (Num 9007199254740992)"
proof (intro conjI)
  show "parseAmount (k_geum @ ascii '','' @ k_won) = Some NaN"
    by (simp add: ev rx lits)
  show "parseAmount (k_geum @ ascii ''9007199254740993'' @ k_won) = Some (Num 9007199254740992)"
    by (simp add: ev rx lits bit_length.simps)
  show "amount_form (k_geum @ ascii ''9007199254740993'' @ k_won) (ascii ''9007199254740993'') []"
    by (simp add: amount_form_scan amount_scan_def amount_char_def lits ascii_def is_space_def
        is_digit_def u_comma_def)
  show "\<not> (\<exists>i N post. amount_form (drop i (k_geum @ ascii '','' @ k_won)) N post \<and> (\<exists>d \<in> set N. is_digit d))"
  proof
    assume "\<exists>i N post. amount_form (drop i (k_geum @ ascii '','' @ k_won)) N post \<and> (\<exists>d \<in> set N. is_digit d)"
    then obtain i N post where f: "amount_scan (drop i (k_geum @ ascii '','' @ k_won)) = Some (N, post)"
      and d: "\<exists>d \<in> set N. is_digit d"
      unfolding amount_form_scan by blast
    have "i = 0 \<or> i = 1 \<or> i = 2 \<or> 3 \<le> i" by arith
    with f have "N = [44]"
      by (auto simp: amount_scan_def amount_char_def lits ascii_def is_space_def
        is_digit_def u_comma_def Let_def split: if_splits)
    with d show False by (simp add: is_digit_def)
  qed
qed

section \<open>What a match consumes and captures; the loop over all matches\<close>

lemma run_length: "(s', c') \<in> set (run r s c) \<Longrightarrow> length s' \<le> length s"
  using run_suffix by fastforce

lemma run_consumes:
  "consumes r \<Longrightarrow> (s', c') \<in> set (run r s c) \<Longrightarrow> length s' < length s"
proof (induction r arbitrary: s c s' c')
  case (Lit w)
  then have w: "w \<noteq> []" and t: "take (length w) s = w" and s': "s' = drop (length w) s"
    by (auto simp: run.simps split: if_splits)
  from t have "length (take (length w) s) = length w" by simp
  then have "length w \<le> length s" by simp
  with w s' show ?case by (cases w) auto
next
  case (Seq a b)
  from Seq.prems(2) obtain s1 c1 where a: "(s1, c1) \<in> set (run a s c)"
    and b: "(s', c') \<in> set (run b s1 c1)"
    unfolding run_Seq_iff by blast
  from Seq.prems(1) have "consumes a \<or> consumes b" by simp
  then show ?case
  proof
    assume "consumes a"
    from Seq.IH(1)[OF this a] run_length[OF b] show ?thesis by simp
  next
    assume "consumes b"
    from Seq.IH(2)[OF this b] run_length[OF a] show ?thesis by simp
  qed
next
  case (Alt a b)
  then show ?case by (auto simp: run.simps(5))
next
  case (Group k a)
  then show ?case by (auto simp: run.simps(8))
qed (auto simp: run.simps(2,3) split: list.splits if_splits)

lemma caps_kept: "(s', c') \<in> set (run r s c) \<Longrightarrow> c k \<noteq> None \<Longrightarrow> c' k \<noteq> None"
proof (induction r s c arbitrary: s' c' rule: run.induct)
  case (4 a b s c)
  from 4(3) obtain s1 c1 where a: "(s1, c1) \<in> set (run a s c)" and b: "(s', c') \<in> set (run b s1 c1)"
    unfolding run_Seq_iff by blast
  from 4(2)[OF a refl b 4(1)[OF a 4(4)]] show ?case .
next
  case (6 a s c)
  from 6(3) consider "(s', c') = (s, c)"
    | s1 c1 where "(s1, c1) \<in> set (run a s c)" "length s1 < length s" "(s', c') \<in> set (run (Star a) s1 c1)"
    by (subst (asm) run_Star_iff) blast
  then show ?case
  proof cases
    case 1
    with 6(4) show ?thesis by simp
  next
    case 2
    from 6(2)[OF 2(1) refl 2(2) 2(3) 6(1)[OF 2(1) 6(4)]] show ?thesis .
  qed
next
  case (7 a s c)
  from 7(3) consider "(s', c') = (s, c)"
    | s1 c1 where "(s1, c1) \<in> set (run a s c)" "length s1 < length s" "(s', c') \<in> set (run (LazyStar a) s1 c1)"
    by (subst (asm) run_LazyStar_iff) blast
  then show ?case
  proof cases
    case 1
    with 7(4) show ?thesis by simp
  next
    case 2
    from 7(2)[OF 2(1) refl 2(2) 2(3) 7(1)[OF 2(1) 7(4)]] show ?thesis .
  qed
next
  case (9 a s c)
  then show ?case by (auto simp: run.simps(9) split: list.splits) (metis list.set_intros(1))
qed (auto simp: run.simps(1,2,3,5,8,10) split: list.splits if_splits)

lemma group_set:
  "sets_group k r \<Longrightarrow> (s', c') \<in> set (run r s c) \<Longrightarrow> c' k \<noteq> None"
proof (induction r arbitrary: s c s' c')
  case (Seq a b)
  from Seq.prems(2) obtain s1 c1 where a: "(s1, c1) \<in> set (run a s c)"
    and b: "(s', c') \<in> set (run b s1 c1)"
    unfolding run_Seq_iff by blast
  from Seq.prems(1) have "sets_group k a \<or> sets_group k b" by simp
  then show ?case
  proof
    assume "sets_group k a"
    from caps_kept[OF b Seq.IH(1)[OF this a]] show ?thesis .
  next
    assume "sets_group k b"
    from Seq.IH(2)[OF this b] show ?thesis .
  qed
next
  case (Alt a b)
  then show ?case by (auto simp: run.simps(5))
next
  case (Group j a)
  then show ?case by (auto simp: run.simps(8))
next
  case (Ahead a)
  then show ?case by (auto simp: run.simps(9) split: list.splits) (metis list.set_intros(1))
qed auto

lemma search_Some:
  "search r s = Some (m, c, rest) \<Longrightarrow>
     \<exists>pre. s = pre @ m @ rest \<and> (rest, c) \<in> set (run r (m @ rest) no_caps)"
proof (induction s)
  case Nil
  then obtain others where r: "run r [] no_caps = (rest, c) # others" and m: "m = []"
    by (auto split: list.splits)
  from r have "(rest, c) \<in> set (run r [] no_caps)" by simp
  moreover from this have "rest = []" using run_length by fastforce
  ultimately show ?case using m by simp
next
  case (Cons x xs)
  show ?case
  proof (cases "run r (x # xs) no_caps")
    case Nil
    with Cons.prems have "search r xs = Some (m, c, rest)" by simp
    from Cons.IH[OF this] obtain pre where "xs = pre @ m @ rest"
      "(rest, c) \<in> set (run r (m @ rest) no_caps)" by blast
    then show ?thesis by (intro exI[of _ "x # pre"]) simp
  next
    case (Cons a others)
    with Cons.prems have a: "a = (rest, c)" and m: "m = take (length (x # xs) - length rest) (x # xs)"
      by (auto split: prod.splits)
    from Cons a have mem: "(rest, c) \<in> set (run r (x # xs) no_caps)" by simp
    from run_suffix[OF this] obtain p where p: "x # xs = p @ rest" by blast
    then have "m = p" unfolding m by simp
    with p mem show ?thesis by (intro exI[of _ "[]"]) simp
  qed
qed

lemma exec_all_returns:
  assumes "consumes r"
  shows "\<exists>ms. exec_all r s = Some ms"
  using assms
proof (induction r s rule: exec_all.induct)
  case (1 r s)
  show ?case
  proof (cases "search r s")
    case None
    then show ?thesis by (simp add: exec_all.simps)
  next
    case (Some t)
    obtain m c rest where t: "t = (m, c, rest)" by (cases t)
    from search_Some[OF Some[unfolded t]] obtain pre where s: "s = pre @ m @ rest"
      and mem: "(rest, c) \<in> set (run r (m @ rest) no_caps)" by blast
    from run_consumes[OF 1(2) mem] have lt: "length rest < length (m @ rest)" .
    then have m: "m \<noteq> []" by auto
    from lt s have lt': "length rest < length s" by simp
    from 1(1)[OF Some[unfolded t] refl refl _ 1(2)] m lt' obtain ms where "exec_all r rest = Some ms" by blast
    with Some t m lt' show ?thesis by (subst exec_all.simps) simp
  qed
qed

text \<open>Every match of the loop is a match of the regular expression somewhere in the text.\<close>

lemma exec_all_matches:
  "exec_all r s = Some ms \<Longrightarrow> m \<in> set ms \<Longrightarrow>
     \<exists>s0 s' c. (s', c) \<in> set (run r s0 no_caps) \<and> m = c(0 := Some (take (length s0 - length s') s0))"
proof (induction r s arbitrary: ms rule: exec_all.induct)
  case (1 r s)
  show ?case
  proof (cases "search r s")
    case None
    with 1(2,3) show ?thesis by (simp add: exec_all.simps)
  next
    case (Some t)
    obtain m0 c rest where t: "t = (m0, c, rest)" by (cases t)
    from 1(2) Some t have ok: "m0 \<noteq> [] \<and> length rest < length s"
      by (subst (asm) exec_all.simps) (auto split: if_splits)
    from 1(2) Some t ok obtain ms' where ms': "exec_all r rest = Some ms'" and ms: "ms = c(0 := Some m0) # ms'"
      by (subst (asm) exec_all.simps) auto
    from search_Some[OF Some[unfolded t]] obtain pre where s: "s = pre @ m0 @ rest"
      and mem: "(rest, c) \<in> set (run r (m0 @ rest) no_caps)" by blast
    from 1(3) ms consider "m = c(0 := Some m0)" | "m \<in> set ms'" by auto
    then show ?thesis
    proof cases
      case 1
      have "take (length (m0 @ rest) - length rest) (m0 @ rest) = m0" by simp
      with mem 1 show ?thesis by metis
    next
      case 2
      from 1(1)[OF Some[unfolded t] refl refl _ ms' 2] ok show ?thesis by blast
    qed
  qed
qed

section \<open>The document as a whole\<close>

lemma reps:
  "rep 2 r = Seq r r"
  "rep 3 r = Seq r (Seq r r)"
  "rep 4 r = Seq r (Seq r (Seq r r))"
  "rep 5 r = Seq r (Seq r (Seq r (Seq r r)))"
  "rep 6 r = Seq r (Seq r (Seq r (Seq r (Seq r r))))"
  "rep 7 r = Seq r (Seq r (Seq r (Seq r (Seq r (Seq r r)))))"
  "rep_range 1 2 r = Seq r (opt (Seq r (Lit [])))"
  by (simp_all add: eval_nat_numeral opt_def)

lemma groups_participate:
  "sets_group 1 amount_re"
  "sets_group 1 floor_area_re" "sets_group 2 floor_area_re"
  "sets_group 1 unique_number_re"
  "sets_group 1 address_re"
  "sets_group 1 title_address_re"
  "sets_group 1 road_address_re"
  "sets_group 1 structure_re"
  "sets_group 1 floors_re"
  "sets_group 1 building_type_re"
  "sets_group 1 ratio_re" "sets_group 2 ratio_re"
  "sets_group 1 exclusive_re"
  "sets_group 1 rowPatternA" "sets_group 2 rowPatternA"
  "sets_group 1 rowPatternB" "sets_group 2 rowPatternB"
  "sets_group 1 receipt_re" "sets_group 2 receipt_re"
  "sets_group 1 causeA_re" "sets_group 1 causeB_re"
  "sets_group 1 causeDateA_re" "sets_group 1 causeDateB_re"
  "sets_group 1 owner_re" "sets_group 1 creditor_re" "sets_group 1 debtor_re"
  "sets_group 1 mortgagee_re" "sets_group 1 lessee_re"
  "sets_group 1 contract_date_re" "sets_group 1 lease_area_re"
  by (simp_all add: rx)

lemma js_match_group:
  assumes "sets_group k r" "js_match s r = Some m"
  shows "m k \<noteq> None"
proof -
  from assms(2) obtain m0 c rest where s: "search r s = Some (m0, c, rest)" and m: "m = c(0 := Some m0)"
    by (auto simp: js_match_def)
  from search_Some[OF s] group_set[OF assms(1)] have "c k \<noteq> None" by blast
  with m show ?thesis by simp
qed

lemma rowPattern_consumes: "consumes rowPatternA" "consumes rowPatternB"
  by (simp_all add: rowPatternA_def rowPatternB_def rank_re_def digits_def plus_def)

lemma parseSectionAEntries_returns: "\<exists>es. parseSectionAEntries text = Some es"
  using exec_all_returns[OF rowPattern_consumes(1)]
  by (auto simp: parseSectionAEntries_def split: option.splits)

lemma parseSectionBEntries_returns: "\<exists>es. parseSectionBEntries text = Some es"
  using exec_all_returns[OF rowPattern_consumes(2)]
  by (auto simp: parseSectionBEntries_def split: option.splits)

lemma parseRegistryPDF_returns:
  assumes "extract_text r1 r2 = Returns text"
  shows "\<exists>entriesA entriesB.
           parseSectionAEntries text = Some entriesA \<and> parseSectionBEntries text = Some entriesB \<and>
           parseRegistryPDF now r1 r2 =
             Returns \<lparr>RegistryData.uniqueNumber = extractUniqueNumber text,
                      RegistryData.propertyType = detectPropertyType text,
                      RegistryData.propertyAddress = extractAddress text,
                      RegistryData.titleInfo = parseTitleSection text,
                      RegistryData.sectionA = entriesA,
                      RegistryData.sectionB = entriesB,
                      rawText = text,
                      RegistryData.parseDate = now\<rparr>"
proof -
  obtain a where a: "parseSectionAEntries text = Some a" using parseSectionAEntries_returns by blast
  obtain b where b: "parseSectionBEntries text = Some b" using parseSectionBEntries_returns by blast
  show ?thesis using assms a b by (simp add: parseRegistryPDF_def Let_def)
qed

lemma parseRegistryPDF_throws:
  "extract_text r1 r2 = Throws e \<Longrightarrow> parseRegistryPDF now r1 r2 = Throws e"
  by (simp add: parseRegistryPDF_def)

lemma extract_text_cases:
  "extract_text r1 r2 = Throws e \<longleftrightarrow> r1 = Pdf2jsonError \<and> r2 = PdfParseError \<and> e = Error extraction_failed_message"
  "extract_text r1 r2 = Hangs \<longleftrightarrow> (\<exists>pages. r1 = Pdf2jsonReady pages \<and> pdf2json_text pages = None)"
  "extract_text r1 r2 = Returns text \<longleftrightarrow>
     (\<exists>pages. r1 = Pdf2jsonReady pages \<and> pdf2json_text pages = Some text)
     \<or> (r1 = Pdf2jsonError \<and> r2 = PdfParseText text)"
  by (auto simp: extract_text_def split: pdf2json_result.splits pdfparse_result.splits option.splits)

lemma parseRegistryPDF_hangs:
  "parseRegistryPDF now r1 r2 = Hangs \<longleftrightarrow> extract_text r1 r2 = Hangs"
proof (cases "extract_text r1 r2")
  case (Returns extracted)
  from parseRegistryPDF_returns[OF this, of now] Returns show ?thesis by auto
qed (simp_all add: parseRegistryPDF_def)

text \<open>The decoder: a run without a percent sign is left as it is; the run "%" is refused.\<close>

lemma decode_plain: "u_percent \<notin> set s \<Longrightarrow> decodeURIComponent s = Some s"
  by (induction s) (subst decodeURIComponent.simps, simp)+

lemma decode_percent: "decodeURIComponent [37] = None"
  by (subst decodeURIComponent.simps) (simp add: u_percent_def)

lemma decode_examples:
  "decodeURIComponent (ascii ''a%20%ED%99%8D'') = Some [97, 32, 0xD64D]"
  "decodeURIComponent (ascii ''%F0%9F%98%80'') = Some [0xD83D, 0xDE00]"
  "decodeURIComponent (ascii ''%ED%A0%80'') = None"
  "decodeURIComponent (ascii ''%C0%80'') = None"
  "decodeURIComponent (ascii ''%E0%A4'') = None"
  "decodeURIComponent (ascii ''%4'') = None"
  "decodeURIComponent (ascii ''%zz'') = None"
  by (simp_all add: decodeURIComponent.simps ascii_def u_percent_def hex_octet_def hex_digit_def
      leading_ones_def utf8_code_point_def is_continuation_def scalar_value_def utf16_encode_def
      numeral_2_eq_2 numeral_3_eq_3)

lemma pdf2json_text_examples:
  "pdf2json_text [[]] = Some page_break"
  "pdf2json_text [[[ascii ''a'']]] = Some (ascii ''a'' @ [u_newline] @ page_break)"
  "pdf2json_text [[[ascii ''%'']]] = None"
  by (simp_all add: pdf2json_text_def page_text_def item_text_def decode_percent
      decode_plain ascii_def u_percent_def)

lemma extraction_failed_message_nonempty: "extraction_failed_message \<noteq> []"
  by (simp add: extraction_failed_message_def ascii_def)

lemma unknown_error_message_nonempty: "unknown_error_message \<noteq> []"
  by (simp add: unknown_error_message_def k_al_def)

lemma search_Seq_None: "search a s = None \<Longrightarrow> search (Seq a b) s = None"
proof (induction s)
  case Nil
  then show ?case by (auto simp: run.simps(4) split: list.splits)
next
  case (Cons x xs)
  then show ?case by (auto simp: run.simps(4) split: list.splits)
qed

lemma no_heading_no_section:
  "js_match text headingA_re = None \<Longrightarrow> js_match text sectionA_re = None"
  "js_match text headingB_re = None \<Longrightarrow> js_match text sectionB_re = None"
  by (simp_all add: js_match_def sectionA_re_def sectionB_re_def search_Seq_None)

text \<open>
  C8 (as amended). The property type of the parse result and of its title info is the
  value of \<^verbatim>\<open>detectPropertyType\<close> on the extracted text: \<open>aggregate_building\<close> when the
  text contains the marker jiphapgeonmul and \<open>building\<close> otherwise, also for a land
  register. It is never \<^verbatim>\<open>land\<close>.
\<close>

theorem property_type_classification:
  "(extract_text r1 r2 = Returns text \<longrightarrow>
      (\<exists>d. parseRegistryPDF now r1 r2 = Returns d
         \<and> RegistryData.propertyType d = detectPropertyType text
         \<and> RegistryTitleInfo.propertyType (RegistryData.titleInfo d) = detectPropertyType text))
   \<and> detectPropertyType text =
        (if js_includes text k_jiphapgeonmul then aggregate_building else building)
   \<and> PropertyType_string (detectPropertyType text) \<noteq> ''land''"
proof (intro conjI impI)
  assume "extract_text r1 r2 = Returns text"
  from parseRegistryPDF_returns[OF this, of now] show
    "\<exists>d. parseRegistryPDF now r1 r2 = Returns d
         \<and> RegistryData.propertyType d = detectPropertyType text
         \<and> RegistryTitleInfo.propertyType (RegistryData.titleInfo d) = detectPropertyType text"
    by (auto simp: parseTitleSection_def Let_def)
next
  show "detectPropertyType text =
        (if js_includes text k_jiphapgeonmul then aggregate_building else building)"
    by (simp add: detectPropertyType_def)
  show "PropertyType_string (detectPropertyType text) \<noteq> ''land''"
    by (simp add: detectPropertyType_def)
qed

text \<open>
  C5 (as amended). \<^verbatim>\<open>parseRegistryPDF\<close> throws exactly when both \<^verbatim>\<open>pdf2json\<close> and
  \<^verbatim>\<open>pdf-parse\<close> fail on the buffer, and then with the message "PDF text extraction
  failed". It returns a \<open>RegistryData\<close> exactly when \<^verbatim>\<open>pdf2json\<close> delivers pages of which
  every run is decoded, or \<^verbatim>\<open>pdf2json\<close> fails and \<^verbatim>\<open>pdf-parse\<close> delivers a text; its
  \<open>rawText\<close> is then the extracted text, whatever that text is (an empty one too).
\<close>

theorem parseRegistryPDF_throws_iff_both_fail:
  "(parseRegistryPDF now r1 r2 = Throws (Error extraction_failed_message)
      \<longleftrightarrow> r1 = Pdf2jsonError \<and> r2 = PdfParseError)
   \<and> (parseRegistryPDF now r1 r2 = Throws e \<longrightarrow> e = Error extraction_failed_message)
   \<and> ((\<exists>d. parseRegistryPDF now r1 r2 = Returns d)
        \<longleftrightarrow> (\<exists>pages text. r1 = Pdf2jsonReady pages \<and> pdf2json_text pages = Some text)
            \<or> (\<exists>text. r1 = Pdf2jsonError \<and> r2 = PdfParseText text))
   \<and> (parseRegistryPDF now r1 r2 = Returns d \<longrightarrow> extract_text r1 r2 = Returns (rawText d))"
proof (cases "extract_text r1 r2")
  case (Throws e')
  then have "r1 = Pdf2jsonError \<and> r2 = PdfParseError \<and> e' = Error extraction_failed_message"
    by (simp add: extract_text_cases)
  with parseRegistryPDF_throws[OF Throws, of now] show ?thesis by auto
next
  case (Returns extracted)
  from Returns have "\<not> (r1 = Pdf2jsonError \<and> r2 = PdfParseError)"
    and "(\<exists>pages text. r1 = Pdf2jsonReady pages \<and> pdf2json_text pages = Some text)
            \<or> (\<exists>text. r1 = Pdf2jsonError \<and> r2 = PdfParseText text)"
    unfolding extract_text_cases(3) by auto
  with parseRegistryPDF_returns[OF Returns, of now] Returns show ?thesis by auto
next
  case Hangs
  then have h: "parseRegistryPDF now r1 r2 = Hangs" by (simp add: parseRegistryPDF_hangs)
  from Hangs obtain pages where "r1 = Pdf2jsonReady pages" "pdf2json_text pages = None"
    unfolding extract_text_cases(2) by blast
  with h show ?thesis by auto
qed

text \<open>
  C6 (as amended). When the text has no heading of section A (of section B), the list
  \<open>sectionA\<close> (\<open>sectionB\<close>) of the returned document is empty and nothing is thrown.
  Nothing is recorded: the result has no list of errors.
\<close>

theorem missing_heading_empty_section:
  "extract_text r1 r2 = Returns text \<longrightarrow>
     (\<exists>d. parseRegistryPDF now r1 r2 = Returns d
        \<and> (js_match text headingA_re = None \<longrightarrow> RegistryData.sectionA d = [])
        \<and> (js_match text headingB_re = None \<longrightarrow> RegistryData.sectionB d = []))"
proof
  assume "extract_text r1 r2 = Returns text"
  from parseRegistryPDF_returns[OF this, of now] obtain entriesA entriesB d
    where a: "parseSectionAEntries text = Some entriesA"
      and b: "parseSectionBEntries text = Some entriesB"
      and d: "parseRegistryPDF now r1 r2 = Returns d"
      and da: "RegistryData.sectionA d = entriesA" and db: "RegistryData.sectionB d = entriesB"
    by fastforce
  have "js_match text headingA_re = None \<longrightarrow> entriesA = []"
    using a no_heading_no_section(1)[of "text"] by (auto simp: parseSectionAEntries_def)
  moreover have "js_match text headingB_re = None \<longrightarrow> entriesB = []"
    using b no_heading_no_section(2)[of "text"] by (auto simp: parseSectionBEntries_def)
  ultimately show "\<exists>d. parseRegistryPDF now r1 r2 = Returns d
        \<and> (js_match text headingA_re = None \<longrightarrow> RegistryData.sectionA d = [])
        \<and> (js_match text headingB_re = None \<longrightarrow> RegistryData.sectionB d = [])"
    using d da db by (intro exI[of _ d]) simp
qed

text \<open>
  C9. The code where \<^verbatim>\<open>pdf2json\<close> delivers a run that \<^verbatim>\<open>decodeURIComponent\<close> refuses,
  such as the run "%": the listener throws, the promise of \<^verbatim>\<open>parseRegistryPDF\<close> is never
  settled, and \<^verbatim>\<open>parseAndProcessPDF\<close> neither returns a \<open>ParseResponse\<close> nor throws, and
  posts no webhook. This is the only case without a response: \<^verbatim>\<open>parseAndProcessPDF\<close>
  never throws, and on every other input it returns a response whose \<open>isDemo\<close> is the
  negation of the paid flag and which, when the parse throws, has \<open>success = False\<close>, a
  non-empty error message and no data.
\<close>

theorem parseAndProcessPDF_hangs_on_undecodable_run:
  "parseAndProcessPDF request_id now (Pdf2jsonReady [[[ascii ''%'']]]) r2 isPaid webhookUrl = (Hangs, [])
   \<and> (fst (parseAndProcessPDF request_id now r1 r2 isPaid webhookUrl) = Hangs
        \<longleftrightarrow> (\<exists>pages. r1 = Pdf2jsonReady pages \<and> pdf2json_text pages = None))
   \<and> fst (parseAndProcessPDF request_id now r1 r2 isPaid webhookUrl) \<noteq> Throws e
   \<and> (fst (parseAndProcessPDF request_id now r1 r2 isPaid webhookUrl) = Returns response \<longrightarrow>
         isDemo response = (\<not> isPaid)
         \<and> ((\<exists>e. parseRegistryPDF now r1 r2 = Throws e)
              \<longrightarrow> \<not> success response \<and> data response = None
                  \<and> (\<exists>message. ParseResponse.error response = Some message \<and> message \<noteq> [])))"
proof (intro conjI)
  have "extract_text (Pdf2jsonReady [[[ascii ''%'']]]) r2 = Hangs"
    by (simp add: extract_text_cases(2) pdf2json_text_examples)
  then have "parseRegistryPDF now (Pdf2jsonReady [[[ascii ''%'']]]) r2 = Hangs"
    by (simp add: parseRegistryPDF_hangs)
  then show "parseAndProcessPDF request_id now (Pdf2jsonReady [[[ascii ''%'']]]) r2 isPaid webhookUrl
      = (Hangs, [])"
    by (simp add: parseAndProcessPDF_def)
next
  have "fst (parseAndProcessPDF request_id now r1 r2 isPaid webhookUrl) = Hangs
      \<longleftrightarrow> parseRegistryPDF now r1 r2 = Hangs"
    by (cases "parseRegistryPDF now r1 r2") (simp_all add: parseAndProcessPDF_def Let_def)
  then show "fst (parseAndProcessPDF request_id now r1 r2 isPaid webhookUrl) = Hangs
        \<longleftrightarrow> (\<exists>pages. r1 = Pdf2jsonReady pages \<and> pdf2json_text pages = None)"
    by (simp add: parseRegistryPDF_hangs extract_text_cases(2))
next
  show "fst (parseAndProcessPDF request_id now r1 r2 isPaid webhookUrl) \<noteq> Throws e"
    by (cases "parseRegistryPDF now r1 r2") (simp_all add: parseAndProcessPDF_def Let_def)
next
  show "fst (parseAndProcessPDF request_id now r1 r2 isPaid webhookUrl) = Returns response \<longrightarrow>
         isDemo response = (\<not> isPaid)
         \<and> ((\<exists>e. parseRegistryPDF now r1 r2 = Throws e)
              \<longrightarrow> \<not> success response \<and> data response = None
                  \<and> (\<exists>message. ParseResponse.error response = Some message \<and> message \<noteq> []))"
  proof (cases "extract_text r1 r2")
    case (Throws e')
    then have e: "e' = Error extraction_failed_message" by (simp add: extract_text_cases)
    from parseRegistryPDF_throws[OF Throws, of now] show ?thesis
      by (auto simp: parseAndProcessPDF_def e extraction_failed_message_nonempty)
  next
    case (Returns extracted)
    from parseRegistryPDF_returns[OF this, of now] obtain d where "parseRegistryPDF now r1 r2 = Returns d"
      by blast
    then show ?thesis by (auto simp: parseAndProcessPDF_def Let_def)
  next
    case Hangs
    then have "parseRegistryPDF now r1 r2 = Hangs" by (simp add: parseRegistryPDF_hangs)
    then show ?thesis by (simp add: parseAndProcessPDF_def)
  qed
qed

text \<open>The theorem at the text "[jiphapgeonmul]".\<close>

theorem property_type_classification_witness:
  "(\<exists>d. parseRegistryPDF [] Pdf2jsonError (PdfParseText (ascii ''['' @ k_jiphapgeonmul @ ascii '']'')) = Returns d
       \<and> RegistryData.propertyType d = aggregate_building
       \<and> RegistryTitleInfo.propertyType (RegistryData.titleInfo d) = aggregate_building)
   \<and> PropertyType_string (detectPropertyType (ascii ''['' @ k_jiphapgeonmul @ ascii '']'')) \<noteq> ''land''"
proof -
  have inc: "js_includes (ascii ''['' @ k_jiphapgeonmul @ ascii '']'') k_jiphapgeonmul"
    by (simp add: starts_with_def lits ascii_def)
  have ex: "extract_text Pdf2jsonError (PdfParseText (ascii ''['' @ k_jiphapgeonmul @ ascii '']''))
      = Returns (ascii ''['' @ k_jiphapgeonmul @ ascii '']'')"
    by (simp add: extract_text_def)
  from property_type_classification[of Pdf2jsonError
      "PdfParseText (ascii ''['' @ k_jiphapgeonmul @ ascii '']'')"
      "ascii ''['' @ k_jiphapgeonmul @ ascii '']''" "[]"] ex inc
  show ?thesis by auto
qed

text \<open>
  C8 as stated fails: the land-only heading "[toji]" is classified \<^verbatim>\<open>building\<close>, and no
  text at all is classified \<^verbatim>\<open>land\<close>.
\<close>

theorem property_type_land_counterexample:
  "PropertyType_string (detectPropertyType (ascii ''['' @ k_toji @ ascii '']'')) = ''building''
   \<and> \<not> (\<exists>text. PropertyType_string (detectPropertyType text) = ''land'')"
  by (simp add: detectPropertyType_def starts_with_def lits ascii_def)

text \<open>The theorem where both libraries fail, and at a one-page document with the run "a".\<close>

theorem parseRegistryPDF_throws_iff_both_fail_witness:
  "parseRegistryPDF [] Pdf2jsonError PdfParseError = Throws (Error extraction_failed_message)
   \<and> (\<exists>d. parseRegistryPDF [] (Pdf2jsonReady [[[ascii ''a'']]]) PdfParseError = Returns d
         \<and> extract_text (Pdf2jsonReady [[[ascii ''a'']]]) PdfParseError = Returns (rawText d)
         \<and> rawText d = ascii ''a'' @ [u_newline] @ page_break)"
proof -
  note T1 = parseRegistryPDF_throws_iff_both_fail[of "[]" Pdf2jsonError PdfParseError
      "Error extraction_failed_message"]
  from T1[THEN conjunct1] have 1: "parseRegistryPDF [] Pdf2jsonError PdfParseError
      = Throws (Error extraction_failed_message)" by simp
  from T1[THEN conjunct2, THEN conjunct1, rule_format, OF 1]
  have "Error extraction_failed_message = Error extraction_failed_message" .
  have "\<exists>d. parseRegistryPDF [] (Pdf2jsonReady [[[ascii ''a'']]]) PdfParseError = Returns d"
    using parseRegistryPDF_throws_iff_both_fail[of "[]" "Pdf2jsonReady [[[ascii ''a'']]]" PdfParseError,
        THEN conjunct2, THEN conjunct2, THEN conjunct1]
      pdf2json_text_examples(2) by blast
  then obtain d where d: "parseRegistryPDF [] (Pdf2jsonReady [[[ascii ''a'']]]) PdfParseError = Returns d"
    by blast
  from parseRegistryPDF_throws_iff_both_fail[of "[]" "Pdf2jsonReady [[[ascii ''a'']]]" PdfParseError _ d,
      THEN conjunct2, THEN conjunct2, THEN conjunct2, rule_format, OF d]
  have r: "extract_text (Pdf2jsonReady [[[ascii ''a'']]]) PdfParseError = Returns (rawText d)" .
  then have "rawText d = ascii ''a'' @ [u_newline] @ page_break"
    by (simp add: extract_text_def pdf2json_text_examples)
  with 1 d r show ?thesis by blast
qed

text \<open>
  C5 as stated fails: a document of one page without any text item, and a document for
  which \<^verbatim>\<open>pdf-parse\<close> delivers the empty text, are parsed into a \<open>RegistryData\<close>; nothing
  is thrown.
\<close>

theorem no_text_layer_counterexample:
  "(\<exists>d. parseRegistryPDF [] (Pdf2jsonReady [[]]) PdfParseError = Returns d \<and> rawText d = page_break)
   \<and> (\<exists>d. parseRegistryPDF [] Pdf2jsonError (PdfParseText []) = Returns d \<and> rawText d = [])"
proof -
  have 1: "extract_text (Pdf2jsonReady [[]]) PdfParseError = Returns page_break"
    by (simp add: extract_text_def pdf2json_text_examples)
  have 2: "extract_text Pdf2jsonError (PdfParseText []) = Returns []"
    by (simp add: extract_text_def)
  from parseRegistryPDF_returns[OF 1, of "[]"] parseRegistryPDF_returns[OF 2, of "[]"]
  show ?thesis by auto
qed

lemma no_headings_in_x:
  "js_match (ascii ''x'') headingA_re = None" "js_match (ascii ''x'') headingB_re = None"
  by (simp_all add: ev rx lits)

text \<open>The theorem at the text "x", which has neither heading.\<close>

theorem missing_heading_empty_section_witness:
  "\<exists>d. parseRegistryPDF [] Pdf2jsonError (PdfParseText (ascii ''x'')) = Returns d
      \<and> RegistryData.sectionA d = [] \<and> RegistryData.sectionB d = []"
proof -
  have "extract_text Pdf2jsonError (PdfParseText (ascii ''x'')) = Returns (ascii ''x'')"
    by (simp add: extract_text_def)
  with missing_heading_empty_section[of Pdf2jsonError "PdfParseText (ascii ''x'')" "ascii ''x''" "[]"]
    no_headings_in_x
  show ?thesis by simp
qed

text \<open>
  C6 as stated fails: for the text "x" the heading of section A is not found and the
  document is returned with an empty \<open>sectionA\<close>, but the object has no property
  \<^verbatim>\<open>errors\<close> in which anything could be recorded.
\<close>

theorem section_not_found_counterexample:
  "js_match (ascii ''x'') headingA_re = None
   \<and> (\<exists>d. parseRegistryPDF [] Pdf2jsonError (PdfParseText (ascii ''x'')) = Returns d
         \<and> RegistryData.sectionA d = [])
   \<and> ''errors'' \<notin> set RegistryData_properties"
proof -
  have 1: "extract_text Pdf2jsonError (PdfParseText (ascii ''x'')) = Returns (ascii ''x'')"
    by (simp add: extract_text_def)
  have "parseSectionAEntries (ascii ''x'') = Some []"
    using no_heading_no_section(1)[OF no_headings_in_x(1)] by (simp add: parseSectionAEntries_def)
  with parseRegistryPDF_returns[OF 1, of "[]"] no_headings_in_x(1)
  show ?thesis by (auto simp: RegistryData_properties_def)
qed

text \<open>The theorem for a demo request on a buffer that neither library can read.\<close>

theorem parseAndProcessPDF_hangs_on_undecodable_run_witness:
  "\<exists>response.
     fst (parseAndProcessPDF (ascii ''id'') [] Pdf2jsonError PdfParseError False None) = Returns response
     \<and> isDemo response \<and> \<not> success response \<and> data response = None
     \<and> (\<exists>message. ParseResponse.error response = Some message \<and> message \<noteq> [])"
proof -
  have t: "parseRegistryPDF [] Pdf2jsonError PdfParseError = Throws (Error extraction_failed_message)"
    by (simp add: parseRegistryPDF_def extract_text_def)
  obtain response where r: "fst (parseAndProcessPDF (ascii ''id'') [] Pdf2jsonError PdfParseError False None)
      = Returns response"
    by (simp add: parseAndProcessPDF_def t)
  from parseAndProcessPDF_hangs_on_undecodable_run[where request_id = "ascii ''id''" and now = "[]"
      and ?r1.0 = Pdf2jsonError and ?r2.0 = PdfParseError and isPaid = False and webhookUrl = None
      and response = response, THEN conjunct2, THEN conjunct2, THEN conjunct2, rule_format, OF r] t
  have "isDemo response \<and> \<not> success response \<and> data response = None
     \<and> (\<exists>message. ParseResponse.error response = Some message \<and> message \<noteq> [])"
    by simp
  with r show ?thesis by blast
qed

section \<open>Masking and the demo response\<close>

text \<open>The equations that evaluate the section parsers on a concrete text.\<close>

lemmas ev2 = ev reps Let_def opt_group_def or_empty_def trim_def starts_with_def
  sectionA_entry_def parseSectionAEntries_def keywordsA_def exec_all.simps
  sectionB_entry_def parseSectionBEntries_def keywordsB_def

lemma parse_example_owner:
  "parseSectionAEntries example_owner_text =
     Some [\<lparr>SectionAEntry.rankNumber = ascii ''1'',
             SectionAEntry.registrationType = k_soyugwonbojon,
             SectionAEntry.receiptDate = [],
             SectionAEntry.receiptNumber = [],
             SectionAEntry.registrationCause = [],
             SectionAEntry.registrationCauseDate = None,
             owners = None,
             creditor = None,
             claimAmount = None,
             restriction = None,
             SectionAEntry.isCancelled = Some False,
             cancelledByRank = None,
             cancellationDate = None,
             cancellationCause = None,
             cancelsRank = None,
             remarks = None,
             owner = Some \<lparr>OwnerInfo.name = [0xD64D, 0xAE38, 0xB3D9],
                            OwnerInfo.residentNumber = Some (ascii ''800101-*******''),
                            OwnerInfo.address = Some [0xC11C, 0xC6B8],
                            share = None\<rparr>,
             SectionAEntry.cancellationInfo = None\<rparr>]"
  by (simp add: example_owner_text_def ev2 rx lits)

lemma parse_example_attachment:
  "\<exists>e2. parseSectionAEntries example_attachment_text =
     Some [\<lparr>SectionAEntry.rankNumber = ascii ''1'',
             SectionAEntry.registrationType = k_gaapryu,
             SectionAEntry.receiptDate = [],
             SectionAEntry.receiptNumber = [],
             SectionAEntry.registrationCause = [],
             SectionAEntry.registrationCauseDate = None,
             owners = None,
             creditor = Some \<lparr>CreditorInfo.name = ascii ''Kim'',
                               CreditorInfo.residentNumber = None,
                               CreditorInfo.address = Some (ascii ''Seoul'')\<rparr>,
             claimAmount = Some (Num 1000),
             restriction = None,
             SectionAEntry.isCancelled = Some False,
             cancelledByRank = None,
             cancellationDate = None,
             cancellationCause = None,
             cancelsRank = None,
             remarks = None,
             owner = None,
             SectionAEntry.cancellationInfo = None\<rparr>, e2]"
  by (simp add: example_attachment_text_def ev2 rx lits)

lemma parsed_owners_none:
  assumes "parseSectionAEntries text = Some es" "e \<in> set es"
  shows "owners e = None"
proof -
  from assms obtain ms where "es = map sectionA_entry ms"
    by (auto simp: parseSectionAEntries_def split: option.splits)
  with assms(2) show ?thesis by (auto simp: sectionA_entry_def Let_def)
qed

text \<open>
  C4. The code on every parsed document: of section A the masked document keeps the
  first entry as it was parsed, but for an empty list \<open>owners\<close> (the parser never writes
  that property, so there is nothing to mask). The creditor with name, resident number
  and address and the claimed amount are still there, while for the entry of section B
  the same function removes the amounts and the persons.
\<close>

theorem demo_mask_keeps_creditor_and_amount:
  "parseRegistryPDF now r1 r2 = Returns d \<longrightarrow>
     PartialRegistryData.sectionA (maskForDemo d)
       = map (\<lambda>e. e\<lparr>owners := Some []\<rparr>) (take 1 (RegistryData.sectionA d))
     \<and> (\<forall>e. PartialRegistryData.sectionA (maskForDemo d) = [e] \<longrightarrow>
           (\<exists>e0 es. RegistryData.sectionA d = e0 # es
              \<and> creditor e = creditor e0 \<and> claimAmount e = claimAmount e0 \<and> owner e = owner e0))"
proof
  assume d: "parseRegistryPDF now r1 r2 = Returns d"
  then obtain t where t: "extract_text r1 r2 = Returns t"
    by (cases "extract_text r1 r2") (auto simp: parseRegistryPDF_def)
  from parseRegistryPDF_returns[OF t, of now] d
  have a: "parseSectionAEntries t = Some (RegistryData.sectionA d)" by auto
  have "mask_sectionA_entry e = e\<lparr>owners := Some []\<rparr>" if "e \<in> set (RegistryData.sectionA d)" for e
    using parsed_owners_none[OF a that] by (simp add: mask_sectionA_entry_def)
  then have m: "PartialRegistryData.sectionA (maskForDemo d)
       = map (\<lambda>e. e\<lparr>owners := Some []\<rparr>) (take 1 (RegistryData.sectionA d))"
    by (auto simp: maskForDemo_def dest: in_set_takeD)
  have "\<exists>e0 es. RegistryData.sectionA d = e0 # es
              \<and> creditor e = creditor e0 \<and> claimAmount e = claimAmount e0 \<and> owner e = owner e0"
    if "PartialRegistryData.sectionA (maskForDemo d) = [e]" for e
    using that unfolding m by (cases "RegistryData.sectionA d") auto
  with m show "PartialRegistryData.sectionA (maskForDemo d)
       = map (\<lambda>e. e\<lparr>owners := Some []\<rparr>) (take 1 (RegistryData.sectionA d))
     \<and> (\<forall>e. PartialRegistryData.sectionA (maskForDemo d) = [e] \<longrightarrow>
           (\<exists>e0 es. RegistryData.sectionA d = e0 # es
              \<and> creditor e = creditor e0 \<and> claimAmount e = claimAmount e0 \<and> owner e = owner e0))"
    by blast
qed

text \<open>
  The theorem at the example with the attachment, for a demo request: the response holds
  the masked document, whose entry of section A still carries the claimed amount and
  the name and address of the creditor.
\<close>

theorem demo_mask_keeps_creditor_and_amount_witness:
  "\<exists>response d e.
     fst (parseAndProcessPDF (ascii ''id'') [] Pdf2jsonError (PdfParseText example_attachment_text) False None)
       = Returns response
     \<and> isDemo response
     \<and> data response = Some (Masked d)
     \<and> PartialRegistryData.sectionA d = [e]
     \<and> claimAmount e = Some (Num 1000)
     \<and> creditor e = Some \<lparr>CreditorInfo.name = ascii ''Kim'',
                              CreditorInfo.residentNumber = None,
                              CreditorInfo.address = Some (ascii ''Seoul'')\<rparr>"
proof -
  have "extract_text Pdf2jsonError (PdfParseText example_attachment_text) = Returns example_attachment_text"
    by (simp add: extract_text_def)
  from parseRegistryPDF_returns[OF this, of "[]"] parse_example_attachment
  obtain d e1 e2 where d: "parseRegistryPDF [] Pdf2jsonError (PdfParseText example_attachment_text) = Returns d"
    and a: "RegistryData.sectionA d = [e1, e2]"
    and e1: "claimAmount e1 = Some (Num 1000)"
      "creditor e1 = Some \<lparr>CreditorInfo.name = ascii ''Kim'',
                              CreditorInfo.residentNumber = None,
                              CreditorInfo.address = Some (ascii ''Seoul'')\<rparr>"
    by auto
  from demo_mask_keeps_creditor_and_amount[of "[]" Pdf2jsonError "PdfParseText example_attachment_text" d,
      rule_format, OF d, THEN conjunct1] a
  have m: "PartialRegistryData.sectionA (maskForDemo d) = [e1\<lparr>owners := Some []\<rparr>]" by simp
  have "fst (parseAndProcessPDF (ascii ''id'') [] Pdf2jsonError (PdfParseText example_attachment_text) False None)
       = Returns \<lparr>success = True, data = Some (Masked (maskForDemo d)), ParseResponse.error = None,
                   ParseResponse.requestId = ascii ''id'', isDemo = True\<rparr>"
    by (simp add: parseAndProcessPDF_def d Let_def)
  with m e1 show ?thesis by force
qed

text \<open>
  C10. The code at the example with the owner, for a demo request: the response holds the
  masked document, whose entry of section A has an empty \<open>owners\<close> (the parser never
  writes that property) and, under the property \<open>owner\<close> that the parser writes instead,
  the owner's full name, resident number and address.
\<close>

theorem demo_response_owner_unmasked:
  "\<exists>response d e.
     fst (parseAndProcessPDF (ascii ''id'') [] Pdf2jsonError (PdfParseText example_owner_text) False None)
       = Returns response
     \<and> isDemo response
     \<and> data response = Some (Masked d)
     \<and> PartialRegistryData.sectionA d = [e]
     \<and> owners e = Some []
     \<and> owner e = Some \<lparr>OwnerInfo.name = [0xD64D, 0xAE38, 0xB3D9],
                          OwnerInfo.residentNumber = Some (ascii ''800101-*******''),
                          OwnerInfo.address = Some [0xC11C, 0xC6B8],
                          share = None\<rparr>"
proof -
  have "extract_text Pdf2jsonError (PdfParseText example_owner_text) = Returns example_owner_text"
    by (simp add: extract_text_def)
  from parseRegistryPDF_returns[OF this, of "[]"] parse_example_owner
  show ?thesis
    by (auto simp: parseAndProcessPDF_def maskForDemo_def mask_sectionA_entry_def Let_def)
qed

section \<open>The entries of a section\<close>

lemma caps_untouched:
  "(s', c') \<in> set (run r s c) \<Longrightarrow> \<not> mentions_group k r \<Longrightarrow> c' k = c k"
proof (induction r s c arbitrary: s' c' rule: run.induct)
  case (4 a b s c)
  from 4(3) obtain s1 c1 where a: "(s1, c1) \<in> set (run a s c)" and b: "(s', c') \<in> set (run b s1 c1)"
    unfolding run_Seq_iff by blast
  from 4(4) have na: "\<not> mentions_group k a" and nb: "\<not> mentions_group k b" by auto
  from 4(2)[OF a refl b nb] 4(1)[OF a na] show ?case by simp
next
  case (6 a s c)
  from 6(4) have na: "\<not> mentions_group k a" by simp
  from 6(3) consider "(s', c') = (s, c)"
    | s1 c1 where "(s1, c1) \<in> set (run a s c)" "length s1 < length s" "(s', c') \<in> set (run (Star a) s1 c1)"
    by (subst (asm) run_Star_iff) blast
  then show ?case
  proof cases
    case 1
    then show ?thesis by simp
  next
    case 2
    from 6(2)[OF 2(1) refl 2(2) 2(3) 6(4)] 6(1)[OF 2(1) na] show ?thesis by simp
  qed
next
  case (7 a s c)
  from 7(4) have na: "\<not> mentions_group k a" by simp
  from 7(3) consider "(s', c') = (s, c)"
    | s1 c1 where "(s1, c1) \<in> set (run a s c)" "length s1 < length s" "(s', c') \<in> set (run (LazyStar a) s1 c1)"
    by (subst (asm) run_LazyStar_iff) blast
  then show ?case
  proof cases
    case 1
    then show ?thesis by simp
  next
    case 2
    from 7(2)[OF 2(1) refl 2(2) 2(3) 7(4)] 7(1)[OF 2(1) na] show ?thesis by simp
  qed
next
  case (9 a s c)
  then show ?case by (auto simp: run.simps(9) split: list.splits) (metis list.set_intros(1))
qed (auto simp: run.simps(1,2,3,5,8,10) split: list.splits if_splits)

lemma run_Lit_iff:
  "(s', c') \<in> set (run (Lit w) s c) \<longleftrightarrow> s = w @ s' \<and> c' = c"
  by (auto simp: run.simps(1)) (metis append_eq_conv_conj)+

lemma run_alts_Lit:
  "(s', c') \<in> set (run (alts (map Lit kws)) s c) \<longleftrightarrow> (\<exists>w \<in> set kws. s = w @ s') \<and> c' = c"
proof (induction kws)
  case Nil
  show ?case by (simp add: run.simps(2) split: list.splits)
next
  case (Cons w kws)
  show ?case
  proof (cases kws)
    case Nil
    then show ?thesis by (simp add: run_Lit_iff)
  next
    case (Cons w' kws')
    then have "alts (map Lit (w # kws)) = Alt (Lit w) (alts (map Lit kws))" by simp
    then show ?thesis using Cons.IH by (auto simp: run.simps(5) run_Lit_iff)
  qed
qed

lemma rowPattern_row_pattern:
  "rowPatternA = row_pattern keywordsA row_endA" "rowPatternB = row_pattern keywordsB row_endB"
  by (simp_all add: rowPatternA_def rowPatternB_def row_pattern_def)

lemma row_end_no_groups:
  "\<not> mentions_group k row_endA" "\<not> mentions_group k row_endB"
  by (simp_all add: rx plus_def opt_def)

lemma row_pattern_keyword:
  assumes "(s', c') \<in> set (run (row_pattern kws row_end) s c)" "\<not> mentions_group 2 row_end"
  shows "\<exists>kw \<in> set kws. c' 2 = Some kw"
proof -
  from assms(1) obtain s1 c1 s2 c2 s3 c3 where
    g2: "(s3, c3) \<in> set (run (Group 2 (alts (map Lit kws))) s2 c2)"
    and tail: "(s', c') \<in> set (run (Seq (LazyStar any_char) (Ahead row_end)) s3 c3)"
    unfolding row_pattern_def seqs.simps run_Seq_iff by blast
  from g2 obtain kw where kw: "kw \<in> set kws" "s2 = kw @ s3" and c3: "c3 = c2(2 := Some (take (length s2 - length s3) s2))"
    by (auto simp: run.simps(8) run_alts_Lit)
  from kw c3 have "c3 2 = Some kw" by simp
  moreover have "\<not> mentions_group 2 (Seq (LazyStar any_char) (Ahead row_end))"
    using assms(2) by (simp add: any_char_def)
  from caps_untouched[OF tail this] have "c' 2 = c3 2" .
  ultimately show ?thesis using kw(1) by auto
qed

lemma keywords_nonempty: "[] \<notin> set keywordsA" "[] \<notin> set keywordsB"
  by (simp_all add: keywordsA_def keywordsB_def lits)

lemma sectionA_entry_fields:
  "SectionAEntry.rankNumber (sectionA_entry m) = grp m 1"
  "SectionAEntry.registrationType (sectionA_entry m) = grp m 2"
  "SectionAEntry.isCancelled (sectionA_entry m) = Some (js_includes (grp m 0) k_malso)"
  "cancelsRank (sectionA_entry m) = None"
  "cancelledByRank (sectionA_entry m) = None"
  "SectionAEntry.cancellationInfo (sectionA_entry m) =
     (if js_includes (grp m 0) k_malso then opt_group (js_match (grp m 0) cancellation_re) 1 else None)"
  by (simp_all add: sectionA_entry_def Let_def)

lemma sectionB_entry_fields:
  "SectionBEntry.rankNumber (sectionB_entry m) = grp m 1"
  "SectionBEntry.registrationType (sectionB_entry m) = grp m 2"
  "SectionBEntry.isCancelled (sectionB_entry m) = Some (js_includes (grp m 0) k_malso)"
  "SectionBEntry.cancellationInfo (sectionB_entry m) = None"
  by (simp_all add: sectionB_entry_def Let_def)

lemma parseSectionAEntries_entry:
  assumes "parseSectionAEntries text = Some es" "e \<in> set es"
  shows "\<exists>m s0 s' c. e = sectionA_entry m \<and> (s', c) \<in> set (run rowPatternA s0 no_caps)
           \<and> m = c(0 := Some (take (length s0 - length s') s0))"
proof -
  from assms obtain sec ms where ms: "exec_all rowPatternA sec = Some ms" and es: "es = map sectionA_entry ms"
    by (auto simp: parseSectionAEntries_def split: option.splits)
  from assms(2) es obtain m where m: "m \<in> set ms" "e = sectionA_entry m" by auto
  from exec_all_matches[OF ms m(1)] m(2) show ?thesis by blast
qed

lemma parseSectionBEntries_entry:
  assumes "parseSectionBEntries text = Some es" "e \<in> set es"
  shows "\<exists>m s0 s' c. e = sectionB_entry m \<and> (s', c) \<in> set (run rowPatternB s0 no_caps)
           \<and> m = c(0 := Some (take (length s0 - length s') s0))"
proof -
  from assms obtain sec ms where ms: "exec_all rowPatternB sec = Some ms" and es: "es = map sectionB_entry ms"
    by (auto simp: parseSectionBEntries_def split: option.splits)
  from assms(2) es obtain m where m: "m \<in> set ms" "e = sectionB_entry m" by auto
  from exec_all_matches[OF ms m(1)] m(2) show ?thesis by blast
qed

lemma sectionA_registrationType:
  assumes "parseSectionAEntries text = Some es" "e \<in> set es"
  shows "SectionAEntry.registrationType e \<in> set keywordsA"
proof -
  from parseSectionAEntries_entry[OF assms] obtain m s0 s' c where e: "e = sectionA_entry m"
    and r: "(s', c) \<in> set (run rowPatternA s0 no_caps)" and m: "m = c(0 := Some (take (length s0 - length s') s0))"
    by blast
  from row_pattern_keyword[OF r[unfolded rowPattern_row_pattern] row_end_no_groups(1)]
  obtain kw where "kw \<in> set keywordsA" "c 2 = Some kw" by blast
  then show ?thesis by (simp add: e sectionA_entry_fields m grp_def)
qed

lemma sectionB_registrationType:
  assumes "parseSectionBEntries text = Some es" "e \<in> set es"
  shows "SectionBEntry.registrationType e \<in> set keywordsB"
proof -
  from parseSectionBEntries_entry[OF assms] obtain m s0 s' c where e: "e = sectionB_entry m"
    and r: "(s', c) \<in> set (run rowPatternB s0 no_caps)" and m: "m = c(0 := Some (take (length s0 - length s') s0))"
    by blast
  from row_pattern_keyword[OF r[unfolded rowPattern_row_pattern] row_end_no_groups(2)]
  obtain kw where "kw \<in> set keywordsB" "c 2 = Some kw" by blast
  then show ?thesis by (simp add: e sectionB_entry_fields m grp_def)
qed

text \<open>
  C3 (as amended). For every input document, every entry of the section A list and of the
  section B list of the result has a non-empty registration type, one of the keywords of
  its section. (Rank numbers are copied as read; nothing makes them unique.)
\<close>

theorem entries_have_known_registration_type:
  "parseRegistryPDF now r1 r2 = Returns d \<longrightarrow>
     (\<forall>e \<in> set (RegistryData.sectionA d).
        SectionAEntry.registrationType e \<noteq> [] \<and> SectionAEntry.registrationType e \<in> set keywordsA)
     \<and> (\<forall>e \<in> set (RegistryData.sectionB d).
        SectionBEntry.registrationType e \<noteq> [] \<and> SectionBEntry.registrationType e \<in> set keywordsB)"
proof
  assume d: "parseRegistryPDF now r1 r2 = Returns d"
  then obtain t where t: "extract_text r1 r2 = Returns t"
    by (cases "extract_text r1 r2") (auto simp: parseRegistryPDF_def)
  from parseRegistryPDF_returns[OF t, of now] d
  have a: "parseSectionAEntries t = Some (RegistryData.sectionA d)"
    and b: "parseSectionBEntries t = Some (RegistryData.sectionB d)"
    by auto
  show "(\<forall>e \<in> set (RegistryData.sectionA d).
        SectionAEntry.registrationType e \<noteq> [] \<and> SectionAEntry.registrationType e \<in> set keywordsA)
     \<and> (\<forall>e \<in> set (RegistryData.sectionB d).
        SectionBEntry.registrationType e \<noteq> [] \<and> SectionBEntry.registrationType e \<in> set keywordsB)"
    using sectionA_registrationType[OF a] sectionB_registrationType[OF b] keywords_nonempty
    by metis
qed












lemma parse_example_duplicate:
  "\<exists>e1 e2. parseSectionAEntries example_duplicate_text = Some [e1, e2]
     \<and> SectionAEntry.rankNumber e1 = ascii ''1''
     \<and> SectionAEntry.registrationType e1 = k_soyugwonbojon
     \<and> SectionAEntry.rankNumber e2 = ascii ''1''
     \<and> SectionAEntry.registrationType e2 = k_soyugwonijeon"
  by (simp add: example_duplicate_text_def ev2 rx lits)

lemma parse_text_returns:
  "\<exists>d. parseRegistryPDF [] Pdf2jsonError (PdfParseText t) = Returns d
     \<and> parseSectionAEntries t = Some (RegistryData.sectionA d)
     \<and> parseSectionBEntries t = Some (RegistryData.sectionB d)"
proof -
  have "extract_text Pdf2jsonError (PdfParseText t) = Returns t" by (simp add: extract_text_def)
  from parseRegistryPDF_returns[OF this, of "[]"] show ?thesis by auto
qed

text \<open>The theorem of C3 at the example with the owner.\<close>

theorem entries_have_known_registration_type_witness:
  "\<exists>d e. parseRegistryPDF [] Pdf2jsonError (PdfParseText example_owner_text) = Returns d
      \<and> RegistryData.sectionA d = [e]
      \<and> SectionAEntry.registrationType e = k_soyugwonbojon
      \<and> SectionAEntry.registrationType e \<noteq> []
      \<and> SectionAEntry.registrationType e \<in> set keywordsA"
proof -
  obtain d where d: "parseRegistryPDF [] Pdf2jsonError (PdfParseText example_owner_text) = Returns d"
    and a: "parseSectionAEntries example_owner_text = Some (RegistryData.sectionA d)"
    using parse_text_returns by blast
  from parse_example_owner a obtain e where es: "RegistryData.sectionA d = [e]"
    and r: "SectionAEntry.registrationType e = k_soyugwonbojon"
    by auto
  from entries_have_known_registration_type[of "[]" Pdf2jsonError "PdfParseText example_owner_text" d,
      rule_format, OF d] es
  have "SectionAEntry.registrationType e \<noteq> [] \<and> SectionAEntry.registrationType e \<in> set keywordsA"
    by auto
  with d es r show ?thesis by auto
qed

text \<open>C3 as stated fails: two rows with the rank number 1 give two entries with rank number 1.\<close>

theorem rank_number_repeated_counterexample:
  "\<exists>d. parseRegistryPDF [] Pdf2jsonError (PdfParseText example_duplicate_text) = Returns d
      \<and> map SectionAEntry.rankNumber (RegistryData.sectionA d) = [ascii ''1'', ascii ''1'']
      \<and> \<not> distinct (map SectionAEntry.rankNumber (RegistryData.sectionA d))"
  using parse_text_returns[of example_duplicate_text] parse_example_duplicate
  by auto

section \<open>The rows that are emitted\<close>







lemma in_classes_digit [simp]: "in_classes [CDigit] = is_digit"
  by (rule ext) simp

lemma hyphen_facts: "\<not> is_space u_hyphen" "\<not> is_digit u_hyphen" "ascii ''-'' = [u_hyphen]"
  by (simp_all add: is_space_def is_digit_def u_hyphen_def ascii_def)



































lemma rank_form_no_space: "rank_form r \<Longrightarrow> r \<noteq> [] \<and> (\<forall>x \<in> set r. \<not> is_space x)"
  unfolding rank_form_def using digit_not_space hyphen_facts(1) by auto












text \<open>
  A keyword in the middle of a line starts an entry too: the one row "2 sintak 3 apryu x",
  of a registration type that is no keyword, gives the entry of rank number 3 and
  registration type apryu.
\<close>

lemma parse_example_inner_keyword:
  "\<exists>e. parseSectionAEntries example_inner_keyword_text = Some [e]
     \<and> SectionAEntry.rankNumber e = ascii ''3'' \<and> SectionAEntry.registrationType e = k_apryu"
  by (simp add: example_inner_keyword_text_def ev2 rx lits)




section \<open>The cancellation marks\<close>






end
